theory Spec2Isabelle
  imports Main "HOL-Library.Word" "HOL-Library.Finite_Map"
begin

section \<open>Transactions (transaction.py)\<close>

text \<open>
  Byte strings are lists of 8-bit words. The source keeps signatures, scripts and
  transaction ids as hexadecimal text (\<^verbatim>\<open>bh2u\<close> of a byte string) and converts with
  \<^verbatim>\<open>bfh\<close> where bytes are needed; here such a text is represented by the byte string it
  encodes, so \<^verbatim>\<open>len(script)//2\<close> is the length of the list and the empty text is the
  empty list.
\<close>

type_synonym bytes = "8 word list"

datatype error =
    SerializationError
  | AssertionError
  | ValueError
  | IndexError
  | KeyError
  | TypeError
  | AttributeError
  | StructError
  | InputValueMissing
  | RuntimeError_unknown_txin_type
  | RuntimeError_expected_signatures nat nat
  | RuntimeError_too_old
  | IncompatibleWalletError
  | IOError
  | Exception_unexpected_version int int int
  | Exception_unsupported_version int
  | Exception_must_be_split
  | Exception_other string

datatype txin_type = coinbase | unknown | p2pk | p2pkh | p2sh

datatype address = P2PKH_Address bytes | P2SH_Address bytes

text \<open>The \<^verbatim>\<open>'address'\<close> entry of an input: \<^verbatim>\<open>None\<close>, an \<^verbatim>\<open>UnknownAddress()\<close> or an address.\<close>

datatype address_entry = NoAddress | UnknownAddress | KnownAddress address

text \<open>
  An input is a Python dict. Entries that the source reads with \<^verbatim>\<open>.get\<close> and a default,
  tests with \<^verbatim>\<open>in\<close>, or that some inputs lack are optional fields; \<^verbatim>\<open>None\<close> is the absent
  key. A signature slot is \<^verbatim>\<open>None\<close> or a hexadecimal text. The empty dict that
  \<^verbatim>\<open>_parse_input\<close> stores under \<^verbatim>\<open>'signatures'\<close> for an input it cannot classify is the
  empty list.
\<close>

record txin =
  prevout_hash :: bytes
  prevout_n :: int
  sequence :: "int option"
  txin_type :: txin_type
  address :: address_entry
  scriptSig :: "bytes option"
  scriptCode :: "bytes option"
  x_pubkeys :: "bytes list option"
  signatures :: "bytes option list option"
  num_sig :: "int option"
  txin_value :: "int option"

record TxOutput =
  out_value :: int
  script_pubkey :: bytes

record Transaction =
  raw :: "bytes option"
  inputs :: "txin list"
  outputs :: "TxOutput list"
  locktime :: int
  version :: int

text \<open>Python truth of a signature slot: \<^verbatim>\<open>None\<close> and the empty text are false.\<close>

fun sig_present :: "bytes option \<Rightarrow> bool" where
  "sig_present None = False"
| "sig_present (Some s) = (s \<noteq> [])"

text \<open>\<^verbatim>\<open>[sig for sig in x_signatures if sig]\<close>.\<close>

fun present_signatures :: "bytes option list \<Rightarrow> bytes list" where
  "present_signatures [] = []"
| "present_signatures (None # xs) = present_signatures xs"
| "present_signatures (Some s # xs) = (if s \<noteq> [] then s # present_signatures xs
                                        else present_signatures xs)"

text \<open>\<^verbatim>\<open>Transaction.is_txin_complete\<close>: \<^verbatim>\<open>txin['signatures']\<close> raises when the key is absent.\<close>

definition is_txin_complete :: "txin \<Rightarrow> error + bool" where
  "is_txin_complete t =
     (let num = (case num_sig t of None \<Rightarrow> 1 | Some n \<Rightarrow> n) in
      case signatures t of
        None \<Rightarrow> Inl KeyError
      | Some x_signatures \<Rightarrow> Inr (int (length (present_signatures x_signatures)) = num))"

text \<open>\<^verbatim>\<open>Transaction.signature_count\<close>: the loop, with the accumulators \<^verbatim>\<open>s\<close> and \<^verbatim>\<open>r\<close>.\<close>

fun signature_count_loop :: "txin list \<Rightarrow> int \<times> int \<Rightarrow> int \<times> int" where
  "signature_count_loop [] (s, r) = (s, r)"
| "signature_count_loop (t # ts) (s, r) =
     (if txin_type t = coinbase then signature_count_loop ts (s, r)
      else
        let sigs = present_signatures (case signatures t of None \<Rightarrow> [] | Some l \<Rightarrow> l)
        in signature_count_loop ts
             (s + int (length sigs), r + (case num_sig t of None \<Rightarrow> - 1 | Some n \<Rightarrow> n)))"

definition signature_count :: "Transaction \<Rightarrow> int \<times> int" where
  "signature_count tx = signature_count_loop (inputs tx) (0, 0)"

definition is_complete :: "Transaction \<Rightarrow> bool" where
  "is_complete tx = (case signature_count tx of (s, r) \<Rightarrow> r = s)"


subsection \<open>Results and indexing\<close>

text \<open>Sequencing of fallible steps: the first error ends the computation, as a raise does.\<close>

definition bnd :: "error + 'a \<Rightarrow> ('a \<Rightarrow> error + 'b) \<Rightarrow> error + 'b" where
  "bnd m f = (case m of Inl e \<Rightarrow> Inl e | Inr v \<Rightarrow> f v)"

text \<open>\<^verbatim>\<open>[f(x) for x in xs]\<close> with a fallible \<^verbatim>\<open>f\<close>: elements are evaluated left to right.\<close>

fun map_err :: "('a \<Rightarrow> error + 'b) \<Rightarrow> 'a list \<Rightarrow> error + 'b list" where
  "map_err f [] = Inr []"
| "map_err f (x # xs) =
     (case f x of
        Inl e \<Rightarrow> Inl e
      | Inr y \<Rightarrow> (case map_err f xs of Inl e \<Rightarrow> Inl e | Inr ys \<Rightarrow> Inr (y # ys)))"

text \<open>Python indexing \<^verbatim>\<open>xs[i]\<close>: a negative index counts from the end.\<close>

definition py_pos :: "nat \<Rightarrow> int \<Rightarrow> nat option" where
  "py_pos n i =
     (if 0 \<le> i \<and> i < int n then Some (nat i)
      else if i < 0 \<and> 0 \<le> int n + i then Some (nat (int n + i))
      else None)"

definition py_index :: "'a list \<Rightarrow> int \<Rightarrow> error + 'a" where
  "py_index xs i = (case py_pos (length xs) i of None \<Rightarrow> Inl IndexError | Some k \<Rightarrow> Inr (xs ! k))"

text \<open>Python slicing \<^verbatim>\<open>xs[a:b]\<close> for \<^verbatim>\<open>0 <= a\<close>: never raises, cut at the end of the list.\<close>

definition slice :: "'a list \<Rightarrow> nat \<Rightarrow> nat \<Rightarrow> 'a list" where
  "slice xs a b = take (b - a) (drop a xs)"

subsection \<open>Integers and sizes on the wire\<close>

fun le_bytes :: "nat \<Rightarrow> nat \<Rightarrow> bytes" where
  "le_bytes 0 n = []"
| "le_bytes (Suc k) n = of_nat (n mod 256) # le_bytes k (n div 256)"

fun le_value :: "bytes \<Rightarrow> nat" where
  "le_value [] = 0"
| "le_value (b # bs) = unat b + 256 * le_value bs"

text \<open>
  Modelled from the spec: \<^verbatim>\<open>int_to_hex\<close> (bitcoin.py, not among the sources). The spec
  fixes little-endian fixed-width integers; for a value outside \<^verbatim>\<open>0 <= i < 256^n\<close> it
  says nothing, and the results below that depend on the value assume that range.
\<close>

definition int_to_hex :: "int \<Rightarrow> nat \<Rightarrow> bytes" where
  "int_to_hex i n = le_bytes n (nat i)"

text \<open>
  Modelled from the spec: \<^verbatim>\<open>var_int\<close> (bitcoin.py, not among the sources), the compact
  size: below 253 one byte; marker 253 and two bytes; marker 254 and four bytes; marker
  255 and eight bytes.
\<close>

definition var_int :: "nat \<Rightarrow> bytes" where
  "var_int i =
     (if i < 253 then int_to_hex (int i) 1
      else if i < 2 ^ 16 then 0xfd # int_to_hex (int i) 2
      else if i < 2 ^ 32 then 0xfe # int_to_hex (int i) 4
      else 0xff # int_to_hex (int i) 8)"

text \<open>
  Modelled from the spec: \<^verbatim>\<open>push_script\<close> (bitcoin.py, not among the sources), the data
  push that \<^verbatim>\<open>_script_GetOp\<close> reads back: a length byte below \<^verbatim>\<open>OP_PUSHDATA1\<close>, or
  \<^verbatim>\<open>OP_PUSHDATA1\<close>, \<^verbatim>\<open>OP_PUSHDATA2\<close>, \<^verbatim>\<open>OP_PUSHDATA4\<close> followed by a little-endian length
  of one, two or four bytes, then the data.
\<close>

definition op_push :: "nat \<Rightarrow> bytes" where
  "op_push n =
     (if n < 0x4c then int_to_hex (int n) 1
      else if n \<le> 0xff then 0x4c # int_to_hex (int n) 1
      else if n \<le> 0xffff then 0x4d # int_to_hex (int n) 2
      else 0x4e # int_to_hex (int n) 4)"

definition push_script :: "bytes \<Rightarrow> bytes" where
  "push_script x = op_push (length x) @ x"


text \<open>
  Modelled from the spec: \<^verbatim>\<open>TxOutput.to_bytes\<close> (the bitcoinx library): the value as eight
  little-endian bytes, then the script prefixed by its compact size.
\<close>

definition TxOutput_to_bytes :: "TxOutput \<Rightarrow> bytes" where
  "TxOutput_to_bytes out =
     int_to_hex (out_value out) 8 @ var_int (length (script_pubkey out)) @ script_pubkey out"

subsection \<open>The read stream (\<^verbatim>\<open>_BCDataStream\<close>)\<close>











subsection \<open>The external library\<close>

text \<open>
  Elliptic-curve keys, hashes, addresses and script items come from the bitcoinx library
  and from crypto.py, which are not part of the sources. They are parameters of the model:
  a record of functions over a type \<open>'pk\<close> of public keys. An optional result is
  \<^verbatim>\<open>None\<close> where the library raises.
\<close>

datatype 'pk key_object = PublicKey 'pk | Address address

record 'pk library =
  sha256d :: "bytes \<Rightarrow> bytes"
  hash_160 :: "bytes \<Rightarrow> bytes"
  PublicKey_from_bytes :: "bytes \<Rightarrow> 'pk option"
  PublicKey_to_bytes :: "'pk \<Rightarrow> bool option \<Rightarrow> bytes"
  PublicKey_add :: "'pk \<Rightarrow> bytes \<Rightarrow> 'pk option"
  PublicKey_to_address :: "'pk \<Rightarrow> address"
  bip32_key_from_string :: "bytes \<Rightarrow> 'pk option"
  bip32_child :: "'pk \<Rightarrow> nat \<Rightarrow> 'pk option"
  classify_output_script :: "bytes \<Rightarrow> address option"
  Address_to_script_bytes :: "address \<Rightarrow> bytes"
  P2PK_Output_to_script_bytes :: "'pk \<Rightarrow> bytes"
  push_int :: "int \<Rightarrow> bytes"
  push_item :: "bytes \<Rightarrow> bytes"
  der_signature_to_compact :: "bytes \<Rightarrow> bytes option"
  from_recoverable_signature :: "bytes \<Rightarrow> bytes \<Rightarrow> 'pk option"
  verify_recoverable_signature :: "'pk \<Rightarrow> bytes \<Rightarrow> bytes \<Rightarrow> bool option"
  PrivateKey_sign :: "bytes \<Rightarrow> bytes \<Rightarrow> bytes option"
  PrivateKey_public_key :: "bytes \<Rightarrow> 'pk option"

subsection \<open>Decimal text\<close>

function decimal :: "nat \<Rightarrow> string" where
  "decimal n =
     (if n < 10 then [''0123456789'' ! n]
      else decimal (n div 10) @ [''0123456789'' ! (n mod 10)])"
  by pat_completeness auto
termination
  by (relation "measure (\<lambda>n. n)") auto

declare decimal.simps [simp del]

definition encode_ascii :: "string \<Rightarrow> bytes" where
  "encode_ascii s = map (\<lambda>c. of_nat (of_char c)) s"

subsection \<open>\<^verbatim>\<open>XPublicKey\<close>\<close>

text \<open>
  An \<^verbatim>\<open>XPublicKey\<close> object is its \<^verbatim>\<open>raw\<close> bytes: equality and hash are those of \<^verbatim>\<open>raw\<close>.
\<close>

definition kind :: "bytes \<Rightarrow> error + nat" where
  "kind xraw = (case xraw of [] \<Rightarrow> Inl IndexError | b # _ \<Rightarrow> Inr (unat b))"

definition bip32_extended_key_and_path :: "bytes \<Rightarrow> error + bytes \<times> nat list" where
  "bip32_extended_key_and_path xraw =
     (if length xraw \<noteq> 83 then Inl AssertionError
      else bnd (kind xraw) (\<lambda>k.
        if k \<noteq> 0xff then Inl AssertionError
        else Inr (slice xraw 1 79, map (\<lambda>n. le_value (slice xraw n (n + 2))) [79, 81])))"

fun bip32_children :: "'pk library \<Rightarrow> 'pk \<Rightarrow> nat list \<Rightarrow> error + 'pk" where
  "bip32_children E result [] = Inr result"
| "bip32_children E result (n # path) =
     (case bip32_child E result n of
        None \<Rightarrow> Inl ValueError
      | Some r \<Rightarrow> bip32_children E r path)"

definition bip32_public_key :: "'pk library \<Rightarrow> bytes \<Rightarrow> error + 'pk" where
  "bip32_public_key E xraw =
     bnd (bip32_extended_key_and_path xraw) (\<lambda>(extended_key, path).
       case bip32_key_from_string E extended_key of
         None \<Rightarrow> Inl ValueError
       | Some result \<Rightarrow> bip32_children E result path)"

definition old_keystore_mpk_and_path :: "bytes \<Rightarrow> error + bytes \<times> nat list" where
  "old_keystore_mpk_and_path xraw =
     (if length xraw \<noteq> 69 then Inl AssertionError
      else bnd (kind xraw) (\<lambda>k.
        if k \<noteq> 0xfe then Inl AssertionError
        else Inr (slice xraw 1 65, map (\<lambda>n. le_value (slice xraw n (n + 2))) [65, 67])))"

definition old_keystore_public_key :: "'pk library \<Rightarrow> bytes \<Rightarrow> error + 'pk" where
  "old_keystore_public_key E xraw =
     bnd (old_keystore_mpk_and_path xraw) (\<lambda>(mpk, path).
       case PublicKey_from_bytes E (4 # mpk) of
         None \<Rightarrow> Inl ValueError
       | Some mpk_key \<Rightarrow>
           let delta = sha256d E
                 (encode_ascii (decimal (path ! 1) @ '':'' @ decimal (path ! 0) @ '':'')
                  @ slice xraw 1 65)
           in (case PublicKey_add E mpk_key delta of
                 None \<Rightarrow> Inl ValueError
               | Some r \<Rightarrow> Inr r))"

definition to_public_key :: "'pk library \<Rightarrow> bytes \<Rightarrow> error + 'pk key_object" where
  "to_public_key E xraw =
     bnd (kind xraw) (\<lambda>k.
       if k = 0x02 \<or> k = 0x03 \<or> k = 0x04 then
         (case PublicKey_from_bytes E xraw of
            None \<Rightarrow> Inl ValueError
          | Some pk \<Rightarrow> Inr (PublicKey pk))
       else if k = 0xff then
         bnd (bip32_public_key E xraw) (\<lambda>pk. Inr (PublicKey pk))
       else if k = 0xfe then
         bnd (old_keystore_public_key E xraw) (\<lambda>pk. Inr (PublicKey pk))
       else if k \<noteq> 0xfd then Inl AssertionError
       else
         (case classify_output_script E (drop 1 xraw) of
            None \<Rightarrow> Inl AssertionError
          | Some a \<Rightarrow> Inr (Address a)))"

text \<open>
  The constructor \<^verbatim>\<open>XPublicKey(raw)\<close>: it resolves the key once and turns a \<^verbatim>\<open>ValueError\<close>
  or a failed assertion into \<^verbatim>\<open>ValueError\<close>; any other exception passes through.
\<close>

definition XPublicKey :: "'pk library \<Rightarrow> bytes \<Rightarrow> error + bytes" where
  "XPublicKey E xraw =
     (case to_public_key E xraw of
        Inl e \<Rightarrow> if e = ValueError \<or> e = AssertionError then Inl ValueError else Inl e
      | Inr _ \<Rightarrow> Inr xraw)"



text \<open>
  \<^verbatim>\<open>to_bytes()\<close> of what \<^verbatim>\<open>to_public_key\<close> returned: an address object has no such
  method.
\<close>

definition key_object_to_bytes :: "'pk library \<Rightarrow> 'pk key_object \<Rightarrow> error + bytes" where
  "key_object_to_bytes E k =
     (case k of
        PublicKey pk \<Rightarrow> Inr (PublicKey_to_bytes E pk None)
      | Address a \<Rightarrow> Inl AttributeError)"

subsection \<open>Scripts\<close>

text \<open>
  \<^verbatim>\<open>multisig_script\<close>: the argument lists, for each key object in order, what its
  \<^verbatim>\<open>to_bytes()\<close> returns; the calls happen after the assertion.
\<close>

definition multisig_script :: "'pk library \<Rightarrow> (error + bytes) list \<Rightarrow> int \<Rightarrow> error + bytes" where
  "multisig_script E keys threshold =
     (if \<not> (1 \<le> threshold \<and> threshold \<le> int (length keys)) then Inl AssertionError
      else bnd (map_err (\<lambda>k. k) keys) (\<lambda>key_bytes.
        Inr (push_int E threshold @ concat (map (push_item E) key_bytes)
             @ push_int E (int (length keys)) @ [0xae])))"





subsection \<open>Parsing inputs\<close>












subsection \<open>Serialising\<close>





definition serialize_outpoint :: "txin \<Rightarrow> bytes" where
  "serialize_outpoint t = rev (prevout_hash t) @ int_to_hex (prevout_n t) 4"

definition sequence_or_default :: "txin \<Rightarrow> int" where
  "sequence_or_default t = (case sequence t of None \<Rightarrow> 0xffffffff - 1 | Some s \<Rightarrow> s)"



subsection \<open>The signing preimage\<close>

definition nHashType :: int where
  "nHashType = 0x41"

definition get_preimage_script :: "'pk library \<Rightarrow> txin \<Rightarrow> error + bytes" where
  "get_preimage_script E t =
     (if txin_type t = p2pkh then
        (case address t of
           KnownAddress a \<Rightarrow> Inr (Address_to_script_bytes E a)
         | _ \<Rightarrow> Inl AttributeError)
      else if txin_type t = p2sh then
        (case x_pubkeys t of
           None \<Rightarrow> Inl KeyError
         | Some xs \<Rightarrow>
             bnd (map_err (to_public_key E) xs) (\<lambda>pubkeys.
               case num_sig t of
                 None \<Rightarrow> Inl KeyError
               | Some n \<Rightarrow> multisig_script E (map (key_object_to_bytes E) pubkeys) n))
      else if txin_type t = p2pk then
        (case x_pubkeys t of
           None \<Rightarrow> Inl KeyError
         | Some xs \<Rightarrow>
             bnd (py_index xs 0) (\<lambda>x_pubkey.
             bnd (to_public_key E x_pubkey) (\<lambda>k.
               case k of
                 PublicKey pk \<Rightarrow> Inr (P2PK_Output_to_script_bytes E pk)
               | Address a \<Rightarrow> Inl AttributeError)))
      else if txin_type t = unknown then
        (case scriptCode t of None \<Rightarrow> Inl KeyError | Some sc \<Rightarrow> Inr sc)
      else Inl RuntimeError_unknown_txin_type)"

definition serialize_preimage :: "'pk library \<Rightarrow> Transaction \<Rightarrow> int \<Rightarrow> error + bytes" where
  "serialize_preimage E tx i =
     (let nVersion = int_to_hex (version tx) 4;
          nHashType_hex = int_to_hex nHashType 4;
          nLocktime = int_to_hex (locktime tx) 4
      in
      bnd (py_index (inputs tx) i) (\<lambda>t.
        let hashPrevouts = sha256d E (concat (map serialize_outpoint (inputs tx)));
            hashSequence = sha256d E
              (concat (map (\<lambda>t. int_to_hex (sequence_or_default t) 4) (inputs tx)));
            hashOutputs = sha256d E (concat (map TxOutput_to_bytes (outputs tx)));
            outpoint = serialize_outpoint t
        in
        bnd (get_preimage_script E t) (\<lambda>preimage_script.
          let scriptCode_hex = var_int (length preimage_script) @ preimage_script in
          case txin_value t of
            None \<Rightarrow> Inl InputValueMissing
          | Some v \<Rightarrow>
              let amount = int_to_hex v 8;
                  nSequence = int_to_hex (sequence_or_default t) 4
              in Inr (nVersion @ hashPrevouts @ hashSequence @ outpoint @ scriptCode_hex
                      @ amount @ nSequence @ hashOutputs @ nLocktime @ nHashType_hex))))"

definition preimage_hash :: "'pk library \<Rightarrow> Transaction \<Rightarrow> int \<Rightarrow> error + bytes" where
  "preimage_hash E tx txin_index =
     bnd (serialize_preimage E tx txin_index) (\<lambda>p. Inr (sha256d E p))"

subsection \<open>Signing\<close>

text \<open>
  \<^verbatim>\<open>sign\<close> and \<^verbatim>\<open>update_signatures\<close> change the transaction in place. A run that raises
  returns the exception together with the transaction as it is at that moment.
\<close>

definition set_input :: "Transaction \<Rightarrow> nat \<Rightarrow> txin \<Rightarrow> Transaction" where
  "set_input tx i t = tx\<lparr>inputs := (inputs tx)[i := t]\<rparr>"

definition sign_txin :: "'pk library \<Rightarrow> Transaction \<Rightarrow> int \<Rightarrow> bytes \<Rightarrow> error + bytes" where
  "sign_txin E tx txin_index privkey_bytes =
     bnd (preimage_hash E tx txin_index) (\<lambda>pre_hash.
       case PrivateKey_sign E privkey_bytes pre_hash of
         None \<Rightarrow> Inl ValueError
       | Some sig \<Rightarrow> Inr (sig @ int_to_hex nHashType 1))"

text \<open>\<^verbatim>\<open>XPublicKey(PrivateKey(sec).public_key.to_bytes(compressed=compressed))\<close>.\<close>

definition key_of_secret :: "'pk library \<Rightarrow> bytes \<Rightarrow> bool \<Rightarrow> error + bytes" where
  "key_of_secret E sec compressed =
     (case PrivateKey_public_key E sec of
        None \<Rightarrow> Inl ValueError
      | Some pk \<Rightarrow> XPublicKey E (PublicKey_to_bytes E pk (Some compressed)))"

text \<open>
  One turn of the inner loop of \<^verbatim>\<open>sign\<close>, for position \<^verbatim>\<open>j\<close> and key \<^verbatim>\<open>x_pubkey\<close> of
  input \<^verbatim>\<open>i\<close>; the flag of the result says that the loop was left with \<^verbatim>\<open>break\<close>.
\<close>

definition sign_slot ::
  "'pk library \<Rightarrow> (bytes \<rightharpoonup> bytes \<times> bool) \<Rightarrow> nat \<Rightarrow> int \<Rightarrow> nat \<Rightarrow> bytes \<Rightarrow> Transaction
     \<Rightarrow> error \<times> Transaction + Transaction \<times> bool" where
  "sign_slot E keypairs i num j x_pubkey tx =
     (let t = inputs tx ! i in
      case signatures t of
        None \<Rightarrow> Inl (KeyError, tx)
      | Some sigs \<Rightarrow>
          if int (length (present_signatures sigs)) = num then Inr (tx, True)
          else
            (case keypairs x_pubkey of
               None \<Rightarrow> Inr (tx, False)
             | Some (sec, compressed) \<Rightarrow>
                 (case sign_txin E tx (int i) sec of
                    Inl e \<Rightarrow> Inl (e, tx)
                  | Inr sig \<Rightarrow>
                      if length sigs \<le> j then Inl (IndexError, tx)
                      else
                        let t1 = t\<lparr>signatures := Some (sigs[j := Some sig])\<rparr>;
                            tx1 = set_input tx i t1
                        in (case kind x_pubkey of
                              Inl e \<Rightarrow> Inl (e, tx1)
                            | Inr k \<Rightarrow>
                                if k = 0xfd then
                                  (case key_of_secret E sec compressed of
                                     Inl e \<Rightarrow> Inl (e, tx1)
                                   | Inr new_key \<Rightarrow>
                                       Inr (set_input tx1 i
                                              (t1\<lparr>x_pubkeys :=
                                                 map_option (\<lambda>l. l[j := new_key])
                                                   (x_pubkeys t1)\<rparr>),
                                            False))
                                else Inr (tx1, False)))))"

text \<open>
  The inner loop over \<^verbatim>\<open>enumerate(x_pubkeys)\<close>. The loop only ever replaces the entry it
  has just visited, so the keys still to come are those of the list at the start.
\<close>

fun sign_keys ::
  "'pk library \<Rightarrow> (bytes \<rightharpoonup> bytes \<times> bool) \<Rightarrow> nat \<Rightarrow> int \<Rightarrow> nat \<Rightarrow> bytes list \<Rightarrow> Transaction
     \<Rightarrow> error \<times> Transaction + Transaction" where
  "sign_keys E keypairs i num j [] tx = Inr tx"
| "sign_keys E keypairs i num j (x_pubkey # rest) tx =
     (case sign_slot E keypairs i num j x_pubkey tx of
        Inl err \<Rightarrow> Inl err
      | Inr (tx1, stop) \<Rightarrow>
          if stop then Inr tx1 else sign_keys E keypairs i num (j + 1) rest tx1)"

definition sign_input ::
  "'pk library \<Rightarrow> (bytes \<rightharpoonup> bytes \<times> bool) \<Rightarrow> nat \<Rightarrow> Transaction
     \<Rightarrow> error \<times> Transaction + Transaction" where
  "sign_input E keypairs i tx =
     (let t = inputs tx ! i in
      case num_sig t of
        None \<Rightarrow> Inl (KeyError, tx)
      | Some num \<Rightarrow>
          (case x_pubkeys t of
             None \<Rightarrow> Inl (KeyError, tx)
           | Some xs \<Rightarrow> sign_keys E keypairs i num 0 xs tx))"

text \<open>The outer loop over \<^verbatim>\<open>enumerate(self.inputs())\<close>: \<^verbatim>\<open>n\<close> inputs are left, from \<^verbatim>\<open>i\<close> on.\<close>

fun sign_inputs ::
  "'pk library \<Rightarrow> (bytes \<rightharpoonup> bytes \<times> bool) \<Rightarrow> nat \<Rightarrow> nat \<Rightarrow> Transaction
     \<Rightarrow> error \<times> Transaction + Transaction" where
  "sign_inputs E keypairs i 0 tx = Inr tx"
| "sign_inputs E keypairs i (Suc n) tx =
     (case sign_input E keypairs i tx of
        Inl err \<Rightarrow> Inl err
      | Inr tx1 \<Rightarrow> sign_inputs E keypairs (i + 1) n tx1)"


subsection \<open>Signatures from a remote signer\<close>

definition add_signature_to_txin ::
  "Transaction \<Rightarrow> nat \<Rightarrow> nat \<Rightarrow> bytes \<Rightarrow> error \<times> Transaction + Transaction" where
  "add_signature_to_txin tx i signingPos sig =
     (let t = inputs tx ! i in
      case signatures t of
        None \<Rightarrow> Inl (KeyError, tx)
      | Some sigs \<Rightarrow>
          if length sigs \<le> signingPos then Inl (IndexError, tx)
          else Inr ((set_input tx i
                       (t\<lparr>signatures := Some (sigs[signingPos := Some sig]),
                          scriptSig := None\<rparr>))\<lparr>raw := None\<rparr>))"






subsection \<open>Comparing transactions\<close>

text \<open>Two inputs spend the same output with the same sequence number.\<close>

definition same_outpoint_and_sequence :: "txin \<Rightarrow> txin \<Rightarrow> bool" where
  "same_outpoint_and_sequence t t' =
     (prevout_hash t' = prevout_hash t \<and> prevout_n t' = prevout_n t
      \<and> sequence_or_default t' = sequence_or_default t)"

text \<open>
  Two inputs agree on what the preimage reads of the input it is built for: outpoint and
  sequence number, kind, keys, threshold, value, address entry and script code. The
  signature slots and the stored script are free.
\<close>

definition same_preimage_fields :: "txin \<Rightarrow> txin \<Rightarrow> bool" where
  "same_preimage_fields t t' =
     (same_outpoint_and_sequence t t' \<and> txin_type t' = txin_type t
      \<and> x_pubkeys t' = x_pubkeys t \<and> num_sig t' = num_sig t
      \<and> txin_value t' = txin_value t \<and> address t' = address t
      \<and> scriptCode t' = scriptCode t)"











subsection \<open>Signatures of a remote signer\<close>






subsection \<open>What a signing pass may change\<close>



section \<open>Wallet storage (storage.py)\<close>

subsection \<open>Documents\<close>

text \<open>
  The values of a wallet document: what \<^verbatim>\<open>json.loads\<close> returns, without floating-point
  numbers, and \<open>JOther\<close> for a Python value that \<^verbatim>\<open>json.dumps\<close> rejects. A dict lists its
  items.
\<close>

datatype json =
    JNull
  | JBool bool
  | JInt int
  | JStr string
  | JList "json list"
  | JDict "(string \<times> json) list"
  | JOther

definition OLD_SEED_VERSION :: int where
  "OLD_SEED_VERSION = 4"

definition NEW_SEED_VERSION :: int where
  "NEW_SEED_VERSION = 11"

definition FINAL_SEED_VERSION :: int where
  "FINAL_SEED_VERSION = 19"

text \<open>Whether \<^verbatim>\<open>json.dumps\<close> accepts a value.\<close>

fun dumps_ok :: "json \<Rightarrow> bool"
  and dumps_ok_list :: "json list \<Rightarrow> bool"
  and dumps_ok_items :: "(string \<times> json) list \<Rightarrow> bool" where
  "dumps_ok JOther = False"
| "dumps_ok (JList xs) = dumps_ok_list xs"
| "dumps_ok (JDict kvs) = dumps_ok_items kvs"
| "dumps_ok JNull = True"
| "dumps_ok (JBool b) = True"
| "dumps_ok (JInt i) = True"
| "dumps_ok (JStr s) = True"
| "dumps_ok_list [] = True"
| "dumps_ok_list (x # xs) = (dumps_ok x \<and> dumps_ok_list xs)"
| "dumps_ok_items [] = True"
| "dumps_ok_items (kv # kvs) = (dumps_ok (snd kv) \<and> dumps_ok_items kvs)"

text \<open>
  Python's \<^verbatim>\<open>==\<close> on such values: \<^verbatim>\<open>True\<close> and \<^verbatim>\<open>False\<close> are the integers 1 and 0, lists
  are compared in order, dicts item by item whatever the order. A value that
  \<^verbatim>\<open>json.dumps\<close> rejects is taken to equal nothing.
\<close>

fun py_eq :: "json \<Rightarrow> json \<Rightarrow> bool"
  and py_eq_list :: "json list \<Rightarrow> json list \<Rightarrow> bool"
  and py_eq_items :: "(string \<times> json) list \<Rightarrow> (string \<times> json) list \<Rightarrow> bool"
  and py_eq_item :: "string \<Rightarrow> json \<Rightarrow> (string \<times> json) list \<Rightarrow> bool" where
  "py_eq JNull b = (b = JNull)"
| "py_eq (JBool x) b =
     (case b of JBool y \<Rightarrow> x = y | JInt j \<Rightarrow> (if x then 1 else 0) = j | _ \<Rightarrow> False)"
| "py_eq (JInt i) b =
     (case b of JBool y \<Rightarrow> i = (if y then 1 else 0) | JInt j \<Rightarrow> i = j | _ \<Rightarrow> False)"
| "py_eq (JStr s) b = (b = JStr s)"
| "py_eq (JList xs) b = (case b of JList ys \<Rightarrow> py_eq_list xs ys | _ \<Rightarrow> False)"
| "py_eq (JDict kvs) b =
     (case b of JDict kvs' \<Rightarrow> length kvs = length kvs' \<and> py_eq_items kvs kvs' | _ \<Rightarrow> False)"
| "py_eq JOther b = False"
| "py_eq_list [] ys = (ys = [])"
| "py_eq_list (x # xs) ys = (case ys of [] \<Rightarrow> False | y # ys' \<Rightarrow> py_eq x y \<and> py_eq_list xs ys')"
| "py_eq_items [] kvs' = True"
| "py_eq_items (kv # kvs) kvs' = (py_eq_item (fst kv) (snd kv) kvs' \<and> py_eq_items kvs kvs')"
| "py_eq_item k v [] = False"
| "py_eq_item k v (kv' # kvs') = (if fst kv' = k then py_eq v (snd kv') else py_eq_item k v kvs')"

text \<open>Python truth and \<^verbatim>\<open>len\<close>.\<close>

fun py_truthy :: "json \<Rightarrow> bool" where
  "py_truthy JNull = False"
| "py_truthy (JBool b) = b"
| "py_truthy (JInt i) = (i \<noteq> 0)"
| "py_truthy (JStr s) = (s \<noteq> [])"
| "py_truthy (JList xs) = (xs \<noteq> [])"
| "py_truthy (JDict kvs) = (kvs \<noteq> [])"
| "py_truthy JOther = True"

fun py_len :: "json \<Rightarrow> error + nat" where
  "py_len (JStr s) = Inr (length s)"
| "py_len (JList xs) = Inr (length xs)"
| "py_len (JDict kvs) = Inr (length kvs)"
| "py_len v = Inl TypeError"

subsection \<open>The storage object and the file system\<close>

datatype node = File string nat | Directory

text \<open>
  What the storage sees of the process and the file system: the paths that exist, each a
  file with its content and mode bits or a directory; whether the running thread is a daemon
  thread; the process id; the mode of a newly created file.
\<close>

record os_state =
  files :: "(string, node) fmap"
  daemon_thread :: bool
  pid :: nat
  new_file_mode :: nat

text \<open>
  The fields of a \<^verbatim>\<open>WalletStorage\<close>: \<open>file_exists\<close> is \<^verbatim>\<open>_file_exists\<close>, \<open>file_raw\<close> is
  \<^verbatim>\<open>raw\<close>. The lock is left out: the model runs one call at a time.
\<close>

record WalletStorage =
  path :: string
  data :: "string \<rightharpoonup> json"
  modified :: bool
  pubkey :: "string option"
  file_exists :: bool
  file_raw :: string
  manual_upgrades :: bool

text \<open>
  What the storage takes from outside: the JSON text of a document, the compression and
  encryption of that text under a public key, and, for each step of the upgrade, the
  statements that follow its version test. These statements rewrite the document (and,
  from version 18 on, hand data to the wallet database, which is not part of the sources);
  the results below hold whatever they do. A step that raises returns the exception with the
  storage as it is then.
\<close>

record externals =
  json_dumps :: "(string \<rightharpoonup> json) \<Rightarrow> string"
  encrypt_message :: "string \<Rightarrow> string \<Rightarrow> string"
  convert_imported_body :: "WalletStorage \<Rightarrow> error \<times> WalletStorage + WalletStorage"
  convert_wallet_type_body :: "WalletStorage \<Rightarrow> error \<times> WalletStorage + WalletStorage"
  convert_account_body :: "WalletStorage \<Rightarrow> error \<times> WalletStorage + WalletStorage"
  convert_version_13_b_body :: "WalletStorage \<Rightarrow> error \<times> WalletStorage + WalletStorage"
  convert_version_14_body :: "WalletStorage \<Rightarrow> error \<times> WalletStorage + WalletStorage"
  convert_version_15_body :: "WalletStorage \<Rightarrow> error \<times> WalletStorage + WalletStorage"
  convert_version_16_body :: "WalletStorage \<Rightarrow> error \<times> WalletStorage + WalletStorage"
  convert_version_17_body :: "WalletStorage \<Rightarrow> error \<times> WalletStorage + WalletStorage"
  convert_version_18_body :: "WalletStorage \<Rightarrow> error \<times> WalletStorage + WalletStorage"
  convert_version_19_body :: "WalletStorage \<Rightarrow> error \<times> WalletStorage + WalletStorage"

subsection \<open>Reading and writing entries\<close>

text \<open>\<^verbatim>\<open>get(key, default)\<close>; the copy it makes is the value itself.\<close>

definition get :: "WalletStorage \<Rightarrow> string \<Rightarrow> json \<Rightarrow> json" where
  "get st key dflt =
     (case data st key of
        None \<Rightarrow> dflt
      | Some v \<Rightarrow> if v = JNull then dflt else v)"

definition put :: "WalletStorage \<Rightarrow> string \<Rightarrow> json \<Rightarrow> WalletStorage" where
  "put st key val =
     (if \<not> dumps_ok val then st
      else if val \<noteq> JNull then
        (if \<not> py_eq (case data st key of None \<Rightarrow> JNull | Some v \<Rightarrow> v) val
         then st\<lparr>modified := True, data := (data st)(key \<mapsto> val)\<rparr>
         else st)
      else if data st key \<noteq> None then
        st\<lparr>modified := True, data := (data st)(key := None)\<rparr>
      else st)"

text \<open>
  \<^verbatim>\<open>_write\<close>, which \<^verbatim>\<open>write\<close> calls under the lock (\<open>write\<close> is a keyword here, hence
  the longer name). The text goes to a temporary file
  beside the wallet file, which is then renamed over it; \<^verbatim>\<open>os.stat\<close> and \<^verbatim>\<open>os.rename\<close>
  raise when the wallet file was said to exist and is not there, or is a directory.
\<close>

definition write_storage ::
  "externals \<Rightarrow> WalletStorage \<Rightarrow> os_state
     \<Rightarrow> error \<times> WalletStorage \<times> os_state + WalletStorage \<times> os_state" where
  "write_storage X st os =
     (if daemon_thread os then Inr (st, os)
      else if \<not> modified st then Inr (st, os)
      else
        let s0 = json_dumps X (data st);
            s = (case pubkey st of
                   None \<Rightarrow> s0
                 | Some k \<Rightarrow> if k \<noteq> [] then encrypt_message X k s0 else s0);
            temp_path = path st @ ''.tmp.'' @ decimal (pid os);
            os1 = os\<lparr>files := fmupd temp_path (File s (new_file_mode os)) (files os)\<rparr>
        in
        (case (if file_exists st then
                 (case fmlookup (files os1) (path st) of
                    Some (File c m) \<Rightarrow> Inr m
                  | Some Directory \<Rightarrow> Inr 0
                  | None \<Rightarrow> Inl IOError)
               else Inr 384) of
           Inl e \<Rightarrow> Inl (e, st, os1)
         | Inr mode \<Rightarrow>
             if fmlookup (files os1) (path st) = Some Directory then Inl (IOError, st, os1)
             else
               Inr (st\<lparr>file_exists := True, file_raw := s, modified := False\<rparr>,
                    os1\<lparr>files := fmupd (path st) (File s mode)
                                    (fmdrop temp_path (files os1))\<rparr>)))"

subsection \<open>The seed version\<close>

text \<open>
  The comparisons of \<^verbatim>\<open>get_seed_version\<close> on a number; \<^verbatim>\<open>raise_unsupported_version\<close> always
  raises.
\<close>

definition check_seed_version :: "int \<Rightarrow> error + int" where
  "check_seed_version seed_version =
     (if seed_version > FINAL_SEED_VERSION then Inl RuntimeError_too_old
      else if seed_version \<ge> 12 then Inr seed_version
      else if seed_version \<noteq> OLD_SEED_VERSION \<and> seed_version \<noteq> NEW_SEED_VERSION
        then Inl (Exception_unsupported_version seed_version)
      else Inr seed_version)"

text \<open>
  \<^verbatim>\<open>get_seed_version\<close>. A stored value that is not a number cannot be compared with one: a
  type error.
\<close>

definition get_seed_version :: "WalletStorage \<Rightarrow> error + int" where
  "get_seed_version st =
     (let seed_version = get st ''seed_version'' JNull in
      if \<not> py_truthy seed_version then
        bnd (py_len (get st ''master_public_key'' (JStr ''''))) (\<lambda>n.
          check_seed_version (if n = 128 then OLD_SEED_VERSION else NEW_SEED_VERSION))
      else
        (case seed_version of
           JInt n \<Rightarrow> check_seed_version n
         | JBool b \<Rightarrow> check_seed_version (if b then 1 else 0)
         | _ \<Rightarrow> Inl TypeError))"

definition is_upgrade_method_needed :: "WalletStorage \<Rightarrow> int \<Rightarrow> int \<Rightarrow> error + bool" where
  "is_upgrade_method_needed st min_version max_version =
     bnd (get_seed_version st) (\<lambda>cur_version.
       if cur_version > max_version then Inr False
       else if cur_version < min_version
         then Inl (Exception_unexpected_version cur_version min_version max_version)
       else Inr True)"

definition requires_split :: "WalletStorage \<Rightarrow> error + bool" where
  "requires_split st = bnd (py_len (get st ''accounts'' (JDict []))) (\<lambda>n. Inr (n > 1))"

definition requires_upgrade :: "WalletStorage \<Rightarrow> error + bool" where
  "requires_upgrade st =
     (if file_exists st then
        bnd (get_seed_version st) (\<lambda>seed_version.
          if seed_version \<le> 17 then Inr True
          else if seed_version < FINAL_SEED_VERSION then
            (if py_eq (get st ''wallet_author'' JNull) (JStr ''ESV'') then Inr True
             else Inl IncompatibleWalletError)
          else Inr False)
      else Inr False)"

subsection \<open>The backup\<close>

text \<open>
  \<^verbatim>\<open>_get_wallet_backup_path\<close>: the loop \<^verbatim>\<open>while True\<close> from \<^verbatim>\<open>attempt\<close> on. The result is
  \<^verbatim>\<open>None\<close> if the loop never ends.
\<close>

partial_function (option) get_wallet_backup_path_from ::
  "(string, node) fmap \<Rightarrow> string \<Rightarrow> nat \<Rightarrow> string option" where
  "get_wallet_backup_path_from fs p attempt =
     (if fmlookup fs (p @ ''.backup.'' @ decimal attempt) = None
      then Some (p @ ''.backup.'' @ decimal attempt)
      else get_wallet_backup_path_from fs p (attempt + 1))"

definition get_wallet_backup_path :: "WalletStorage \<Rightarrow> os_state \<Rightarrow> string option" where
  "get_wallet_backup_path st os = get_wallet_backup_path_from (files os) (path st) 1"

text \<open>
  \<^verbatim>\<open>_backup_wallet\<close>; \<^verbatim>\<open>shutil.copyfile\<close> copies the content of a file and raises when the
  source is missing or a directory.
\<close>

definition backup_wallet :: "WalletStorage \<Rightarrow> os_state \<Rightarrow> (error \<times> os_state + os_state) option" where
  "backup_wallet st os =
     (if \<not> file_exists st then Some (Inr os)
      else
        (case get_wallet_backup_path st os of
           None \<Rightarrow> None
         | Some new_wallet_path \<Rightarrow>
             (case fmlookup (files os) (path st) of
                Some (File c m) \<Rightarrow>
                  Some (Inr (os\<lparr>files := fmupd new_wallet_path (File c (new_file_mode os))
                                              (files os)\<rparr>))
              | _ \<Rightarrow> Some (Inl (IOError, os)))))"

subsection \<open>The upgrade\<close>

text \<open>
  Every step starts with \<^verbatim>\<open>if not self._is_upgrade_method_needed(min, max): return\<close>.
\<close>

definition version_gated ::
  "int \<Rightarrow> int \<Rightarrow> (WalletStorage \<Rightarrow> error \<times> WalletStorage + WalletStorage) \<Rightarrow> WalletStorage
     \<Rightarrow> error \<times> WalletStorage + WalletStorage" where
  "version_gated min_version max_version body st =
     (case is_upgrade_method_needed st min_version max_version of
        Inl e \<Rightarrow> Inl (e, st)
      | Inr needed \<Rightarrow> if \<not> needed then Inr st else body st)"

definition convert_imported :: "externals \<Rightarrow> WalletStorage \<Rightarrow> error \<times> WalletStorage + WalletStorage" where
  "convert_imported X = version_gated 0 13 (convert_imported_body X)"

definition convert_wallet_type :: "externals \<Rightarrow> WalletStorage \<Rightarrow> error \<times> WalletStorage + WalletStorage" where
  "convert_wallet_type X = version_gated 0 13 (convert_wallet_type_body X)"

definition convert_account :: "externals \<Rightarrow> WalletStorage \<Rightarrow> error \<times> WalletStorage + WalletStorage" where
  "convert_account X = version_gated 0 13 (convert_account_body X)"

definition convert_version_13_b :: "externals \<Rightarrow> WalletStorage \<Rightarrow> error \<times> WalletStorage + WalletStorage" where
  "convert_version_13_b X = version_gated 0 13 (convert_version_13_b_body X)"

definition convert_version_14 :: "externals \<Rightarrow> WalletStorage \<Rightarrow> error \<times> WalletStorage + WalletStorage" where
  "convert_version_14 X = version_gated 13 13 (convert_version_14_body X)"

definition convert_version_15 :: "externals \<Rightarrow> WalletStorage \<Rightarrow> error \<times> WalletStorage + WalletStorage" where
  "convert_version_15 X = version_gated 14 14 (convert_version_15_body X)"

definition convert_version_16 :: "externals \<Rightarrow> WalletStorage \<Rightarrow> error \<times> WalletStorage + WalletStorage" where
  "convert_version_16 X = version_gated 15 15 (convert_version_16_body X)"

definition convert_version_17 :: "externals \<Rightarrow> WalletStorage \<Rightarrow> error \<times> WalletStorage + WalletStorage" where
  "convert_version_17 X = version_gated 16 16 (convert_version_17_body X)"

definition convert_version_18 :: "externals \<Rightarrow> WalletStorage \<Rightarrow> error \<times> WalletStorage + WalletStorage" where
  "convert_version_18 X = version_gated 17 17 (convert_version_18_body X)"

definition convert_version_19 :: "externals \<Rightarrow> WalletStorage \<Rightarrow> error \<times> WalletStorage + WalletStorage" where
  "convert_version_19 X = version_gated 18 18 (convert_version_19_body X)"

text \<open>Calls one after the other; the first exception ends the run.\<close>

fun in_sequence ::
  "(WalletStorage \<Rightarrow> error \<times> WalletStorage + WalletStorage) list \<Rightarrow> WalletStorage
     \<Rightarrow> error \<times> WalletStorage + WalletStorage" where
  "in_sequence [] st = Inr st"
| "in_sequence (step # steps) st =
     (case step st of
        Inl err \<Rightarrow> Inl err
      | Inr st1 \<Rightarrow> in_sequence steps st1)"

text \<open>The calls of \<^verbatim>\<open>upgrade\<close> after the backup.\<close>

definition upgrade_steps ::
  "externals \<Rightarrow> WalletStorage \<Rightarrow> os_state
     \<Rightarrow> error \<times> WalletStorage \<times> os_state + WalletStorage \<times> os_state" where
  "upgrade_steps X st os =
     (case in_sequence
             [convert_imported X, convert_wallet_type X, convert_account X,
              convert_version_13_b X, convert_version_14 X, convert_version_15 X,
              convert_version_16 X, convert_version_17 X, convert_version_18 X,
              convert_version_19 X] st of
        Inl (e, st1) \<Rightarrow> Inl (e, st1, os)
      | Inr st1 \<Rightarrow> write_storage X (put st1 ''seed_version'' (JInt FINAL_SEED_VERSION)) os)"

text \<open>\<^verbatim>\<open>upgrade\<close>; the result is \<^verbatim>\<open>None\<close> if the search for a backup path never ends.\<close>

definition upgrade ::
  "externals \<Rightarrow> WalletStorage \<Rightarrow> os_state
     \<Rightarrow> (error \<times> WalletStorage \<times> os_state + WalletStorage \<times> os_state) option" where
  "upgrade X st os =
     (case backup_wallet st os of
        None \<Rightarrow> None
      | Some (Inl (e, os1)) \<Rightarrow> Some (Inl (e, st, os1))
      | Some (Inr os1) \<Rightarrow> Some (upgrade_steps X st os1))"

text \<open>
  \<^verbatim>\<open>load_data\<close> once the text of the file is parsed into the dict \<open>d\<close> (the parsing is not
  modelled).
\<close>

definition load_data ::
  "externals \<Rightarrow> (string \<rightharpoonup> json) \<Rightarrow> WalletStorage \<Rightarrow> os_state
     \<Rightarrow> (error \<times> WalletStorage \<times> os_state + WalletStorage \<times> os_state) option" where
  "load_data X d st0 os =
     (let st = st0\<lparr>data := d\<rparr> in
      if manual_upgrades st then Some (Inr (st, os))
      else
        (case requires_split st of
           Inl e \<Rightarrow> Some (Inl (e, st, os))
         | Inr split \<Rightarrow>
             if split then Some (Inl (Exception_must_be_split, st, os))
             else
               (case requires_upgrade st of
                  Inl e \<Rightarrow> Some (Inl (e, st, os))
                | Inr needed \<Rightarrow> if needed then upgrade X st os else Some (Inr (st, os)))))"

subsection \<open>Puts that store what is there\<close>

text \<open>
  The value \<open>val\<close> is what the document holds under \<open>key\<close>: it is not \<^verbatim>\<open>None\<close> and equals
  (\<^verbatim>\<open>==\<close>) the stored value, or it is \<^verbatim>\<open>None\<close> and the key is absent.
\<close>

definition same_as_stored :: "WalletStorage \<Rightarrow> string \<Rightarrow> json \<Rightarrow> bool" where
  "same_as_stored st key val =
     (case data st key of
        None \<Rightarrow> val = JNull
      | Some s \<Rightarrow> val \<noteq> JNull \<and> py_eq s val)"

fun put_all :: "WalletStorage \<Rightarrow> (string \<times> json) list \<Rightarrow> WalletStorage" where
  "put_all st [] = st"
| "put_all st (kv # kvs) = put_all (put st (fst kv) (snd kv)) kvs"

section \<open>Examples\<close>

text \<open>
  A small instance of the library, for evaluating the model on concrete transactions. A
  public key is its serialised bytes; the hashes pad or cut their argument and are not
  cryptographic.
\<close>

definition demo_library :: "bytes library" where
  "demo_library =
     \<lparr>sha256d = (\<lambda>b. take 32 (b @ replicate 32 0)),
      hash_160 = (\<lambda>b. take 20 (b @ replicate 20 0)),
      PublicKey_from_bytes = (\<lambda>b.
        if (length b = 33 \<and> (take 1 b = [2] \<or> take 1 b = [3])) \<or> (length b = 65 \<and> take 1 b = [4])
        then Some b else None),
      PublicKey_to_bytes = (\<lambda>pk c. pk),
      PublicKey_add = (\<lambda>pk d. Some pk),
      PublicKey_to_address = (\<lambda>pk. P2PKH_Address (take 20 (pk @ replicate 20 0))),
      bip32_key_from_string = (\<lambda>b. None),
      bip32_child = (\<lambda>pk n. None),
      classify_output_script = (\<lambda>s.
        if length s = 25 then Some (P2PKH_Address (take 20 (drop 3 s))) else None),
      Address_to_script_bytes = (\<lambda>a.
        case a of
          P2PKH_Address h \<Rightarrow> [0x76, 0xa9, 0x14] @ h @ [0x88, 0xac]
        | P2SH_Address h \<Rightarrow> [0xa9, 0x14] @ h @ [0x87]),
      P2PK_Output_to_script_bytes = (\<lambda>pk. push_script pk @ [0xac]),
      push_int = (\<lambda>n. [of_nat (nat (80 + n))]),
      push_item = push_script,
      der_signature_to_compact = (\<lambda>s. Some s),
      from_recoverable_signature = (\<lambda>r h. None),
      verify_recoverable_signature = (\<lambda>pk r h. Some True),
      PrivateKey_sign = (\<lambda>sec h. Some (0x30 # take 8 h)),
      PrivateKey_public_key = (\<lambda>sec. Some (2 # take 32 (sec @ replicate 32 0)))\<rparr>"

definition key1 :: bytes where
  "key1 = 2 # replicate 32 0x11"

definition key2 :: bytes where
  "key2 = 3 # replicate 32 0x22"

definition sig1 :: bytes where
  "sig1 = [0x30, 0x01, 0x41]"

definition sig2 :: bytes where
  "sig2 = [0x30, 0x02, 0x41]"

text \<open>An input as \<^verbatim>\<open>_parse_input\<close> leaves it before the script is looked at.\<close>

definition blank_txin :: txin where
  "blank_txin =
     \<lparr>prevout_hash = replicate 32 0xaa, prevout_n = 0, sequence = Some 0xffffffff,
      txin_type = unknown, address = NoAddress, scriptSig = Some [], scriptCode = None,
      x_pubkeys = Some [], signatures = Some [], num_sig = Some 0, txin_value = None\<rparr>"

text \<open>A 1-of-2 multisig input that carries both signatures.\<close>

definition txin_surplus :: txin where
  "txin_surplus =
     blank_txin\<lparr>txin_type := p2sh, x_pubkeys := Some [key1, key2],
                signatures := Some [Some sig1, Some sig2], num_sig := Some 1,
                address := KnownAddress (P2SH_Address (replicate 20 0))\<rparr>"

text \<open>A pay-to-public-key-hash input whose signature is still missing.\<close>

definition txin_unsigned :: txin where
  "txin_unsigned =
     blank_txin\<lparr>prevout_n := 1, txin_type := p2pkh, x_pubkeys := Some [key1],
                signatures := Some [None], num_sig := Some 1,
                address := KnownAddress (P2PKH_Address (replicate 20 0)),
                txin_value := Some 5000\<rparr>"

definition tx_surplus :: Transaction where
  "tx_surplus =
     \<lparr>raw = None, inputs = [txin_surplus, txin_unsigned],
      outputs = [\<lparr>out_value = 4000, script_pubkey = [0x51]\<rparr>], locktime = 0, version = 1\<rparr>"

text \<open>A transaction whose only input could not be classified: no script code, no value.\<close>

definition tx_unknown :: Transaction where
  "tx_unknown =
     \<lparr>raw = None, inputs = [blank_txin],
      outputs = [\<lparr>out_value = 4000, script_pubkey = [0x51]\<rparr>], locktime = 0, version = 1\<rparr>"

text \<open>The same with a script code supplied from outside, still without a value.\<close>

definition tx_unknown_code :: Transaction where
  "tx_unknown_code =
     tx_unknown\<lparr>inputs := [blank_txin\<lparr>scriptCode := Some [0x51]\<rparr>]\<rparr>"



text \<open>
  \<open>tx_surplus\<close> after \<^verbatim>\<open>add_signature_to_txin\<close> has put \<open>sig2\<close> into the first slot of its
  first input: the stored script of that input and the cached serialisation are gone.
\<close>

definition tx_filled :: Transaction where
  "tx_filled =
     tx_surplus\<lparr>inputs := [txin_surplus\<lparr>signatures := Some [Some sig2, Some sig2],
                                          scriptSig := None\<rparr>,
                            txin_unsigned],
                raw := None\<rparr>"

text \<open>The library instance with a hash that returns its argument, so that it never collides.\<close>

definition exact_library :: "bytes library" where
  "exact_library = demo_library\<lparr>sha256d := (\<lambda>b. b)\<rparr>"

text \<open>
  Two transactions that differ only in the script code of their unclassified input, and two
  that differ only in the address entry of their pay-to-public-key-hash input.
\<close>

definition tx_code_a :: Transaction where
  "tx_code_a =
     tx_unknown\<lparr>inputs := [blank_txin\<lparr>scriptCode := Some [0x51], txin_value := Some 5000\<rparr>]\<rparr>"

definition tx_code_b :: Transaction where
  "tx_code_b =
     tx_unknown\<lparr>inputs := [blank_txin\<lparr>scriptCode := Some [0x52], txin_value := Some 5000\<rparr>]\<rparr>"

definition tx_unsigned :: Transaction where
  "tx_unsigned = tx_unknown\<lparr>inputs := [txin_unsigned]\<rparr>"

definition tx_unsigned_moved :: Transaction where
  "tx_unsigned_moved =
     tx_unknown\<lparr>inputs := [txin_unsigned\<lparr>address :=
                                KnownAddress (P2PKH_Address (replicate 20 1))\<rparr>]\<rparr>"

text \<open>
  A stand-in for what the storage takes from outside: a fixed text for every document, no
  encryption, and upgrade steps that change nothing after their version test.
\<close>

definition demo_externals :: externals where
  "demo_externals =
     \<lparr>json_dumps = (\<lambda>d. ''{}''),
      encrypt_message = (\<lambda>k s. s),
      convert_imported_body = Inr,
      convert_wallet_type_body = Inr,
      convert_account_body = Inr,
      convert_version_13_b_body = Inr,
      convert_version_14_body = Inr,
      convert_version_15_body = Inr,
      convert_version_16_body = Inr,
      convert_version_17_body = Inr,
      convert_version_18_body = Inr,
      convert_version_19_body = Inr\<rparr>"

text \<open>A file system with the wallet file \<^verbatim>\<open>w\<close> and one earlier backup of it.\<close>

definition os_two :: os_state where
  "os_two =
     \<lparr>files = fmupd ''w.backup.1'' (File ''old'' 420) (fmupd ''w'' (File ''{}'' 384) fmempty),
      daemon_thread = False, pid = 7, new_file_mode = 420\<rparr>"

text \<open>The storage of the file \<^verbatim>\<open>w\<close>, at the final version and from a later one.\<close>

definition st_current :: WalletStorage where
  "st_current =
     \<lparr>path = ''w'', data = [''seed_version'' \<mapsto> JInt 19], modified = False, pubkey = None,
      file_exists = True, file_raw = ''{}'', manual_upgrades = False\<rparr>"

definition st_future :: WalletStorage where
  "st_future = st_current\<lparr>data := [''seed_version'' \<mapsto> JInt 20]\<rparr>"

text \<open>
  The storage that the constructor makes for a path without a file, as \<^verbatim>\<open>split_accounts\<close>
  does before it calls \<^verbatim>\<open>upgrade\<close> on it.
\<close>

definition st_fresh :: WalletStorage where
  "st_fresh =
     \<lparr>path = ''w.imported'',
      data = [''tx_store_aeskey'' \<mapsto> JStr ''00'', ''wallet_author'' \<mapsto> JStr ''ESV'',
              ''seed_version'' \<mapsto> JInt 19],
      modified = True, pubkey = None, file_exists = False, file_raw = [],
      manual_upgrades = False\<rparr>"

text \<open>A document that holds \<^verbatim>\<open>null\<close> under a key, as a wallet file may.\<close>

definition st_null :: WalletStorage where
  "st_null = st_current\<lparr>data := [''seed_version'' \<mapsto> JInt 19, ''seed'' \<mapsto> JNull]\<rparr>"

text \<open>
  A legacy-keystore reference (kind \<^verbatim>\<open>0xfe\<close>, 69 bytes) and a script-hash placeholder (kind
  \<^verbatim>\<open>0xfd\<close> before an output script of 25 bytes), each the only key of an unsigned input,
  and the secrets for them.
\<close>

definition key_fe :: bytes where
  "key_fe = 0xfe # replicate 68 0x11"

definition key_fd :: bytes where
  "key_fd = 0xfd # replicate 25 0x33"

definition tx_fe :: Transaction where
  "tx_fe =
     \<lparr>raw = None, inputs = [txin_unsigned\<lparr>x_pubkeys := Some [key_fe]\<rparr>],
      outputs = [\<lparr>out_value = 4000, script_pubkey = [0x51]\<rparr>], locktime = 0, version = 1\<rparr>"

definition tx_fd :: Transaction where
  "tx_fd =
     \<lparr>raw = None, inputs = [txin_unsigned\<lparr>x_pubkeys := Some [key_fd]\<rparr>],
      outputs = [\<lparr>out_value = 4000, script_pubkey = [0x51]\<rparr>], locktime = 0, version = 1\<rparr>"

definition keypairs_fe :: "bytes \<rightharpoonup> bytes \<times> bool" where
  "keypairs_fe = [key_fe \<mapsto> (replicate 32 0x07, False)]"

definition keypairs_fd :: "bytes \<rightharpoonup> bytes \<times> bool" where
  "keypairs_fd = [key_fd \<mapsto> (replicate 32 0x07, True)]"

text \<open>What the library instance signs for the only input of \<open>tx_fe\<close> and of \<open>tx_fd\<close>.\<close>

definition sig_demo :: bytes where
  "sig_demo = [0x30, 1, 0, 0, 0, 0xaa, 0xaa, 0xaa, 0xaa, 0x41]"



definition txin_fe_signed :: txin where
  "txin_fe_signed =
     txin_unsigned\<lparr>x_pubkeys := Some [key_fe], signatures := Some [Some sig_demo]\<rparr>"

definition txin_fd_signed :: txin where
  "txin_fd_signed =
     txin_unsigned\<lparr>x_pubkeys := Some [2 # replicate 32 0x07],
                    signatures := Some [Some sig_demo]\<rparr>"


definition key_04 :: bytes where
  "key_04 = 4 # replicate 64 0x11"









section \<open>Which errors a step can raise\<close>

lemma bnd_split:
  "P (bnd m f) = ((\<forall>e. m = Inl e \<longrightarrow> P (Inl e)) \<and> (\<forall>v. m = Inr v \<longrightarrow> P (f v)))"
  by (cases m) (simp_all add: bnd_def)

lemma bnd_split_asm:
  "P (bnd m f) = (\<not> ((\<exists>e. m = Inl e \<and> \<not> P (Inl e)) \<or> (\<exists>v. m = Inr v \<and> \<not> P (f v))))"
  by (cases m) (simp_all add: bnd_def)

lemmas bnd_splits = bnd_split bnd_split_asm












subsection \<open>What serialising can raise\<close>











section \<open>Backup names\<close>

lemma digit_inj:
  assumes "a < 10" "b < 10" "''0123456789'' ! a = ''0123456789'' ! b"
  shows "a = b"
proof -
  have d: "distinct ''0123456789''" by simp
  have "a < length ''0123456789''" "b < length ''0123456789''" using assms by simp_all
  with d assms(3) show ?thesis by (simp only: nth_eq_iff_index_eq)
qed

lemma decimal_nonempty: "decimal n \<noteq> []"
  by (subst decimal.simps) simp

lemma decimal_inj: "decimal n = decimal m \<Longrightarrow> n = m"
proof (induction n arbitrary: m rule: less_induct)
  case (less n)
  show ?case
  proof (cases "n < 10")
    case True
    then have n1: "decimal n = [''0123456789'' ! n]" by (subst decimal.simps) simp
    show ?thesis
    proof (cases "m < 10")
      case True
      then have "decimal m = [''0123456789'' ! m]" by (subst decimal.simps) simp
      with n1 less.prems have "''0123456789'' ! n = ''0123456789'' ! m" by simp
      with \<open>n < 10\<close> True show ?thesis by (rule digit_inj)
    next
      case False
      then have "decimal m = decimal (m div 10) @ [''0123456789'' ! (m mod 10)]"
        by (subst decimal.simps) simp
      with n1 less.prems decimal_nonempty [of "m div 10"] show ?thesis by simp
    qed
  next
    case False
    then have n2: "decimal n = decimal (n div 10) @ [''0123456789'' ! (n mod 10)]"
      by (subst decimal.simps) simp
    show ?thesis
    proof (cases "m < 10")
      case True
      then have "decimal m = [''0123456789'' ! m]" by (subst decimal.simps) simp
      with n2 less.prems decimal_nonempty [of "n div 10"] show ?thesis by simp
    next
      case mf: False
      then have "decimal m = decimal (m div 10) @ [''0123456789'' ! (m mod 10)]"
        by (subst decimal.simps) simp
      with n2 less.prems have e: "decimal (n div 10) = decimal (m div 10)"
        and d: "''0123456789'' ! (n mod 10) = ''0123456789'' ! (m mod 10)" by simp_all
      from False have "n div 10 < n" by simp
      with less.IH e have q: "n div 10 = m div 10" by blast
      have r: "n mod 10 = m mod 10" using d by (intro digit_inj) simp_all
      from q r show ?thesis by (metis div_mult_mod_eq)
    qed
  qed
qed

lemma backup_name_free:
  "\<exists>N\<ge>a. fmlookup fs (p @ ''.backup.'' @ decimal N) = None"
proof (rule ccontr)
  assume "\<not> ?thesis"
  then have all: "\<And>N. a \<le> N \<Longrightarrow> (p @ ''.backup.'' @ decimal N) \<in> fmdom' fs"
    by (auto simp: fmlookup_dom'_iff)
  let ?f = "\<lambda>N. p @ ''.backup.'' @ decimal N"
  have "inj_on ?f {a..}" by (auto simp: inj_on_def dest: decimal_inj)
  moreover have "?f ` {a..} \<subseteq> fmdom' fs" using all by auto
  then have "finite (?f ` {a..})" by (rule finite_subset) simp
  ultimately have "finite {a..}" by (rule finite_imageD[rotated])
  then show False by (simp add: infinite_Ici)
qed

lemma backup_path_search:
  assumes "a \<le> N" "fmlookup fs (p @ ''.backup.'' @ decimal N) = None"
    "\<forall>M. a \<le> M \<and> M < N \<longrightarrow> fmlookup fs (p @ ''.backup.'' @ decimal M) \<noteq> None"
  shows "get_wallet_backup_path_from fs p a = Some (p @ ''.backup.'' @ decimal N)"
  using assms
proof (induction "N - a" arbitrary: a)
  case 0
  then have "a = N" by simp
  with 0 show ?case by (subst get_wallet_backup_path_from.simps) simp
next
  case (Suc k)
  then have "a < N" by simp
  with Suc.prems have busy: "fmlookup fs (p @ ''.backup.'' @ decimal a) \<noteq> None" by simp
  have "get_wallet_backup_path_from fs p (a + 1) = Some (p @ ''.backup.'' @ decimal N)"
    using Suc by (intro Suc.hyps(1)) auto
  with busy show ?case by (subst get_wallet_backup_path_from.simps) auto
qed

lemma first_free_backup_name:
  "\<exists>N\<ge>1. fmlookup fs (p @ ''.backup.'' @ decimal N) = None
        \<and> (\<forall>M. 1 \<le> M \<and> M < N \<longrightarrow> fmlookup fs (p @ ''.backup.'' @ decimal M) \<noteq> None)"
proof -
  let ?P = "\<lambda>N. 1 \<le> N \<and> fmlookup fs (p @ ''.backup.'' @ decimal N) = None"
  from backup_name_free [of 1 fs p] have ex: "\<exists>N. ?P N" by auto
  then have l: "?P (LEAST N. ?P N)" by (rule LeastI_ex)
  have m: "fmlookup fs (p @ ''.backup.'' @ decimal M) \<noteq> None"
    if "1 \<le> M" "M < (LEAST N. ?P N)" for M
  proof
    assume "fmlookup fs (p @ ''.backup.'' @ decimal M) = None"
    with that(1) have "?P M" by simp
    then have "(LEAST N. ?P N) \<le> M" by (rule Least_le)
    with that(2) show False by simp
  qed
  show ?thesis
  proof (intro exI conjI allI impI)
    show "1 \<le> (LEAST N. ?P N)" using l by simp
    show "fmlookup fs (p @ ''.backup.'' @ decimal (LEAST N. ?P N)) = None" using l by simp
    show "fmlookup fs (p @ ''.backup.'' @ decimal M) \<noteq> None"
      if "1 \<le> M \<and> M < (LEAST N. ?P N)" for M using that m by blast
  qed
qed

lemma decimal_1: "decimal (Suc 0) = ''1''"
  by (subst decimal.simps) simp

lemma decimal_2: "decimal 2 = ''2''"
  by (subst decimal.simps) simp

lemma decimal_7: "decimal 7 = ''7''"
  by (subst decimal.simps) simp

section \<open>Evaluating the examples\<close>

lemma replicate_numeral_eval: "replicate (numeral k) x = x # replicate (pred_numeral k) x"
  by (simp add: numeral_eq_Suc)

lemma le_bytes_1: "le_bytes 1 n = [of_nat (n mod 256)]"
  by simp

lemma le_bytes_4:
  "le_bytes 4 n = [of_nat (n mod 256), of_nat (n div 256 mod 256),
     of_nat (n div 256 div 256 mod 256), of_nat (n div 256 div 256 div 256 mod 256)]"
proof -
  have "(4::nat) = Suc (Suc (Suc (Suc 0)))" by simp
  then show ?thesis by (simp only: le_bytes.simps)
qed

lemma sign_txin_fe: "sign_txin demo_library tx_fe 0 (replicate 32 0x07) = Inr sig_demo"
  by (simp add: sign_txin_def preimage_hash_def serialize_preimage_def bnd_def py_index_def
      py_pos_def tx_fe_def txin_unsigned_def blank_txin_def get_preimage_script_def Let_def
      demo_library_def serialize_outpoint_def int_to_hex_def le_bytes_4 le_bytes_1 nHashType_def
      sig_demo_def replicate_numeral_eval)

lemma sign_txin_fd: "sign_txin demo_library tx_fd 0 (replicate 32 0x07) = Inr sig_demo"
  by (simp add: sign_txin_def preimage_hash_def serialize_preimage_def bnd_def py_index_def
      py_pos_def tx_fd_def txin_unsigned_def blank_txin_def get_preimage_script_def Let_def
      demo_library_def serialize_outpoint_def int_to_hex_def le_bytes_4 le_bytes_1 nHashType_def
      sig_demo_def replicate_numeral_eval)

lemma inputs_tx_fe: "inputs tx_fe = [txin_unsigned\<lparr>x_pubkeys := Some [key_fe]\<rparr>]"
  by (simp add: tx_fe_def)

lemma inputs_tx_fd: "inputs tx_fd = [txin_unsigned\<lparr>x_pubkeys := Some [key_fd]\<rparr>]"
  by (simp add: tx_fd_def)

lemma sign_slot_fe:
  "sign_slot demo_library keypairs_fe 0 1 0 key_fe tx_fe
     = Inr (tx_fe\<lparr>inputs := [txin_fe_signed]\<rparr>, False)"
  by (simp add: sign_slot_def inputs_tx_fe sign_txin_fe keypairs_fe_def kind_def key_fe_def
      Let_def set_input_def txin_unsigned_def blank_txin_def txin_fe_signed_def)

lemma key_of_secret_demo:
  "key_of_secret demo_library (replicate 32 0x07) True = Inr (2 # replicate 32 0x07)"
  by (simp add: key_of_secret_def XPublicKey_def to_public_key_def kind_def bnd_def
      demo_library_def)

lemma sign_slot_fd:
  "sign_slot demo_library keypairs_fd 0 1 0 key_fd tx_fd
     = Inr (tx_fd\<lparr>inputs := [txin_fd_signed]\<rparr>, False)"
  by (simp add: sign_slot_def inputs_tx_fd sign_txin_fd keypairs_fd_def kind_def key_fd_def
      Let_def set_input_def txin_unsigned_def blank_txin_def txin_fd_signed_def
      key_of_secret_demo)

lemma sign_inputs_fe:
  "sign_inputs demo_library keypairs_fe 0 (length (inputs tx_fe)) tx_fe
     = Inr (tx_fe\<lparr>inputs := [txin_fe_signed]\<rparr>)"
  by (simp add: sign_input_def inputs_tx_fe sign_slot_fe txin_unsigned_def blank_txin_def)

lemma to_public_key_fe:
  "to_public_key demo_library key_fe = Inr (PublicKey key_04)"
  by (simp add: to_public_key_def kind_def key_fe_def bnd_def old_keystore_public_key_def
      old_keystore_mpk_and_path_def slice_def demo_library_def replicate_numeral_eval key_04_def)

section \<open>Reading back what was written\<close>

subsection \<open>Little-endian numbers\<close>




subsection \<open>The stream\<close>





subsection \<open>Scripts\<close>











subsection \<open>Inputs\<close>







subsection \<open>Transactions\<close>










subsection \<open>The examples\<close>

lemma le_bytes_8: "le_bytes 8 n = le_bytes 4 n @ le_bytes 4 (n div 256 div 256 div 256 div 256)"
proof -
  have "(8::nat) = Suc (Suc (Suc (Suc 4)))" by simp
  then show ?thesis by (simp only: le_bytes.simps append_Cons append_Nil le_bytes_4)
qed









section \<open>Completeness (C1)\<close>

lemma signature_count_loop_sums:
  "signature_count_loop ts (s, r) =
     (s + (\<Sum>t\<leftarrow>filter (\<lambda>t. txin_type t \<noteq> coinbase) ts.
             int (length (present_signatures (case signatures t of None \<Rightarrow> [] | Some l \<Rightarrow> l)))),
      r + (\<Sum>t\<leftarrow>filter (\<lambda>t. txin_type t \<noteq> coinbase) ts.
             (case num_sig t of None \<Rightarrow> - 1 | Some n \<Rightarrow> n)))"
  by (induction ts arbitrary: s r) (simp_all add: Let_def)

text \<open>
  C1. The claim: \<^verbatim>\<open>is_complete\<close> holds exactly when every input that is not a coinbase
  has as many present signatures as \<^verbatim>\<open>num_sig\<close>. The source compares the two totals
  instead. On the transaction \<open>tx_surplus\<close>, whose first input has two signatures for a
  threshold of one and whose second input has none for a threshold of one, the totals
  agree and \<^verbatim>\<open>is_complete\<close> answers true, although neither input is complete and the
  sibling test \<^verbatim>\<open>is_txin_complete\<close> says so for both.
\<close>

theorem is_complete_compares_totals:
  "is_complete tx_surplus
   \<and> txin_type (inputs tx_surplus ! 0) \<noteq> coinbase
   \<and> txin_type (inputs tx_surplus ! 1) \<noteq> coinbase
   \<and> is_txin_complete (inputs tx_surplus ! 0) = Inr False
   \<and> is_txin_complete (inputs tx_surplus ! 1) = Inr False"
  by (simp add: is_complete_def signature_count_def is_txin_complete_def tx_surplus_def
      txin_surplus_def txin_unsigned_def blank_txin_def sig1_def sig2_def)

section \<open>The value-missing error (C6)\<close>


lemma sign_txin_value_missing:
  "sign_txin E tx i sec = Inl InputValueMissing \<Longrightarrow> serialize_preimage E tx i = Inl InputValueMissing"
  unfolding sign_txin_def preimage_hash_def
  by (auto split: bnd_splits option.splits)





























section \<open>What the preimage depends on (C3)\<close>

lemma same_outpoint_and_sequence_maps:
  assumes "list_all2 same_outpoint_and_sequence ts ts'"
  shows "map serialize_outpoint ts' = map serialize_outpoint ts"
    and "map (\<lambda>t. int_to_hex (sequence_or_default t) 4) ts'
         = map (\<lambda>t. int_to_hex (sequence_or_default t) 4) ts"
  using assms
  by (induction rule: list_all2_induct)
     (simp_all add: same_outpoint_and_sequence_def serialize_outpoint_def)

lemma same_preimage_fields_script:
  assumes "same_preimage_fields t t'"
  shows "get_preimage_script E t' = get_preimage_script E t"
    and "serialize_outpoint t' = serialize_outpoint t"
    and "sequence_or_default t' = sequence_or_default t"
    and "txin_value t' = txin_value t"
proof -
  have e: "txin_type t' = txin_type t" "x_pubkeys t' = x_pubkeys t" "num_sig t' = num_sig t"
    "address t' = address t" "scriptCode t' = scriptCode t" "prevout_hash t' = prevout_hash t"
    "prevout_n t' = prevout_n t"
    using assms by (simp_all add: same_preimage_fields_def same_outpoint_and_sequence_def)
  show "get_preimage_script E t' = get_preimage_script E t"
    unfolding get_preimage_script_def by (simp only: e)
  show "serialize_outpoint t' = serialize_outpoint t"
    unfolding serialize_outpoint_def by (simp only: e)
  show "sequence_or_default t' = sequence_or_default t" "txin_value t' = txin_value t"
    using assms by (simp_all add: same_preimage_fields_def same_outpoint_and_sequence_def)
qed

lemma preimage_same_fields:
  assumes "version tx' = version tx" and "locktime tx' = locktime tx"
    and "outputs tx' = outputs tx"
    and "list_all2 same_outpoint_and_sequence (inputs tx) (inputs tx')"
    and "case py_pos (length (inputs tx)) i of
           None \<Rightarrow> True
         | Some k \<Rightarrow> same_preimage_fields (inputs tx ! k) (inputs tx' ! k)"
  shows "serialize_preimage E tx' i = serialize_preimage E tx i"
proof -
  have len: "length (inputs tx') = length (inputs tx)"
    using assms(4) by (simp add: list_all2_lengthD)
  note maps = same_outpoint_and_sequence_maps [OF assms(4)]
  show ?thesis
  proof (cases "py_pos (length (inputs tx)) i")
    case None
    then show ?thesis by (simp add: serialize_preimage_def py_index_def len bnd_def)
  next
    case (Some k)
    with assms(5) have f: "same_preimage_fields (inputs tx ! k) (inputs tx' ! k)" by simp
    note eqs = same_preimage_fields_script [OF f]
    have "py_index (inputs tx') i = Inr (inputs tx' ! k)"
      and "py_index (inputs tx) i = Inr (inputs tx ! k)"
      using Some by (simp_all add: py_index_def len)
    then show ?thesis
      unfolding serialize_preimage_def
      by (simp add: bnd_def Let_def maps eqs assms(1,2,3)
          cong: option.case_cong sum.case_cong)
  qed
qed

text \<open>
  C3, as amended. Let two transactions agree on version, locktime and outputs, have
  equally many inputs, position by position with the same outpoint and sequence number,
  and let the inputs at the position that the index \<open>i\<close> selects also agree on kind, keys,
  threshold, value, address entry and script code. Then \<^verbatim>\<open>preimage_hash\<close> for \<open>i\<close> gives
  the same result on both, be it a digest or an exception. The signature slots and the
  stored script of every input, input \<open>i\<close> included, and all further fields of the other
  inputs play no part.
\<close>

theorem preimage_hash_depends_only_on:
  assumes "version tx' = version tx" and "locktime tx' = locktime tx"
    and "outputs tx' = outputs tx"
    and "list_all2 same_outpoint_and_sequence (inputs tx) (inputs tx')"
    and "case py_pos (length (inputs tx)) i of
           None \<Rightarrow> True
         | Some k \<Rightarrow> same_preimage_fields (inputs tx ! k) (inputs tx' ! k)"
  shows "preimage_hash E tx' i = preimage_hash E tx i"
  by (simp add: preimage_hash_def preimage_same_fields [OF assms])

theorem preimage_hash_depends_only_on_witness:
  "add_signature_to_txin tx_surplus 0 0 sig2 = Inr tx_filled
   \<and> inputs tx_filled ! 0 \<noteq> inputs tx_surplus ! 0
   \<and> preimage_hash demo_library tx_filled 1 = preimage_hash demo_library tx_surplus 1
   \<and> preimage_hash demo_library tx_surplus 1
       = Inr ([1, 0, 0, 0] @ replicate 28 0xaa)"
proof -
  have f: "add_signature_to_txin tx_surplus 0 0 sig2 = Inr tx_filled"
    by (simp add: add_signature_to_txin_def tx_surplus_def tx_filled_def txin_surplus_def
        set_input_def)
  have n: "inputs tx_filled ! 0 \<noteq> inputs tx_surplus ! 0"
    by (simp add: tx_surplus_def tx_filled_def txin_surplus_def blank_txin_def)
  have a: "version tx_filled = version tx_surplus" "locktime tx_filled = locktime tx_surplus"
    "outputs tx_filled = outputs tx_surplus"
    by (simp_all add: tx_filled_def)
  have b: "list_all2 same_outpoint_and_sequence (inputs tx_surplus) (inputs tx_filled)"
    by (simp add: tx_surplus_def tx_filled_def same_outpoint_and_sequence_def
        sequence_or_default_def)
  have c: "case py_pos (length (inputs tx_surplus)) 1 of
             None \<Rightarrow> True
           | Some k \<Rightarrow> same_preimage_fields (inputs tx_surplus ! k) (inputs tx_filled ! k)"
    by (simp add: tx_surplus_def tx_filled_def py_pos_def same_preimage_fields_def
        same_outpoint_and_sequence_def)
  have e: "preimage_hash demo_library tx_filled 1 = preimage_hash demo_library tx_surplus 1"
    using preimage_hash_depends_only_on [OF a b c] .
  have v: "preimage_hash demo_library tx_surplus 1 = Inr ([1, 0, 0, 0] @ replicate 28 0xaa)"
    by (simp add: preimage_hash_def serialize_preimage_def bnd_def py_index_def py_pos_def
        tx_surplus_def txin_unsigned_def txin_surplus_def blank_txin_def
        get_preimage_script_def Let_def demo_library_def serialize_outpoint_def int_to_hex_def
        le_bytes_4 replicate_numeral_eval)
  show ?thesis using f n e v by simp
qed

text \<open>
  C3, as stated, fails in its list of what the preimage depends on: the list has neither
  the script code, which the preimage of an unclassified input is built from, nor the
  address entry, which that of a pay-to-public-key-hash input is built from. Each pair of
  transactions below agrees on everything the claim lists and gives two preimage hashes.
\<close>

theorem preimage_hash_reads_more_counterexample:
  "tx_code_b = tx_code_a\<lparr>inputs := [(inputs tx_code_a ! 0)\<lparr>scriptCode := Some [0x52]\<rparr>]\<rparr>
   \<and> preimage_hash exact_library tx_code_b 0 \<noteq> preimage_hash exact_library tx_code_a 0
   \<and> tx_unsigned_moved
       = tx_unsigned\<lparr>inputs := [(inputs tx_unsigned ! 0)
                                   \<lparr>address := KnownAddress (P2PKH_Address (replicate 20 1))\<rparr>]\<rparr>
   \<and> preimage_hash exact_library tx_unsigned_moved 0 \<noteq> preimage_hash exact_library tx_unsigned 0"
proof -
  have a: "tx_code_b = tx_code_a\<lparr>inputs := [(inputs tx_code_a ! 0)\<lparr>scriptCode := Some [0x52]\<rparr>]\<rparr>"
    by (simp add: tx_code_a_def tx_code_b_def)
  have b: "preimage_hash exact_library tx_code_b 0 \<noteq> preimage_hash exact_library tx_code_a 0"
    by (simp add: preimage_hash_def serialize_preimage_def bnd_def py_index_def py_pos_def
        tx_code_a_def tx_code_b_def tx_unknown_def blank_txin_def get_preimage_script_def
        Let_def exact_library_def demo_library_def var_int_def int_to_hex_def le_bytes_1
        le_bytes_4 le_bytes_8 serialize_outpoint_def sequence_or_default_def
        replicate_numeral_eval)
  have c: "tx_unsigned_moved
       = tx_unsigned\<lparr>inputs := [(inputs tx_unsigned ! 0)
                                   \<lparr>address := KnownAddress (P2PKH_Address (replicate 20 1))\<rparr>]\<rparr>"
    by (simp add: tx_unsigned_def tx_unsigned_moved_def)
  have d: "preimage_hash exact_library tx_unsigned_moved 0
             \<noteq> preimage_hash exact_library tx_unsigned 0"
    by (simp add: preimage_hash_def serialize_preimage_def bnd_def py_index_def py_pos_def
        tx_unsigned_def tx_unsigned_moved_def tx_unknown_def txin_unsigned_def blank_txin_def
        get_preimage_script_def Let_def exact_library_def demo_library_def var_int_def
        int_to_hex_def le_bytes_1 le_bytes_4 le_bytes_8 serialize_outpoint_def
        sequence_or_default_def replicate_numeral_eval)
  show ?thesis using a b c d by blast
qed

section \<open>A seed version beyond the final one (C8)\<close>

lemma get_seed_version_too_new:
  assumes "data st ''seed_version'' = Some (JInt n)" "n > FINAL_SEED_VERSION"
  shows "get_seed_version st = Inl RuntimeError_too_old"
proof -
  have "n \<noteq> 0" using assms(2) by (simp add: FINAL_SEED_VERSION_def)
  then show ?thesis
    using assms by (simp add: get_seed_version_def get_def check_seed_version_def)
qed

lemma version_gated_too_new:
  assumes "get_seed_version st = Inl e"
  shows "version_gated a b body st = Inl (e, st)"
  using assms by (simp add: version_gated_def is_upgrade_method_needed_def bnd_def)

lemma upgrade_steps_too_new:
  assumes "get_seed_version st = Inl e"
  shows "upgrade_steps X st os = Inl (e, st, os)"
  using assms
  by (simp add: upgrade_steps_def convert_imported_def version_gated_too_new)

lemma backup_wallet_returns: "\<exists>r. backup_wallet st os = Some r"
proof (cases "file_exists st")
  case False
  then show ?thesis by (simp add: backup_wallet_def)
next
  case True
  obtain N where "1 \<le> N" "fmlookup (files os) (path st @ ''.backup.'' @ decimal N) = None"
    "\<forall>M. 1 \<le> M \<and> M < N \<longrightarrow> fmlookup (files os) (path st @ ''.backup.'' @ decimal M) \<noteq> None"
    using first_free_backup_name [of "files os" "path st"] by blast
  then have "get_wallet_backup_path st os = Some (path st @ ''.backup.'' @ decimal N)"
    unfolding get_wallet_backup_path_def by (intro backup_path_search) auto
  then show ?thesis
    by (auto simp: backup_wallet_def split: option.splits node.splits)
qed

text \<open>
  C8. Let the document hold under \<^verbatim>\<open>seed_version\<close> a number above the final version 19.
  Then \<^verbatim>\<open>get_seed_version\<close> raises the error "too old to open this wallet"; so does
  \<^verbatim>\<open>requires_upgrade\<close> for a storage whose file exists, and with it \<^verbatim>\<open>load_data\<close>, which
  never reaches \<^verbatim>\<open>upgrade\<close>. A step of the upgrade, whatever its version range and its
  statements, raises the same error at its version test and leaves the storage as it was;
  the steps of \<^verbatim>\<open>upgrade\<close> together raise it with the storage unchanged, and \<^verbatim>\<open>upgrade\<close>
  itself returns an exception with the storage unchanged.
\<close>

theorem seed_version_beyond_final:
  assumes "data st ''seed_version'' = Some (JInt n)" and "n > FINAL_SEED_VERSION"
  shows "get_seed_version st = Inl RuntimeError_too_old
         \<and> (file_exists st \<longrightarrow> requires_upgrade st = Inl RuntimeError_too_old)
         \<and> version_gated a b body st = Inl (RuntimeError_too_old, st)
         \<and> upgrade_steps X st os = Inl (RuntimeError_too_old, st, os)
         \<and> (\<exists>e os1. upgrade X st os = Some (Inl (e, st, os1)))
         \<and> (file_exists st \<and> \<not> manual_upgrades st \<and> requires_split st = Inr False \<longrightarrow>
              load_data X (data st) st os = Some (Inl (RuntimeError_too_old, st, os)))"
proof -
  have g: "get_seed_version st = Inl RuntimeError_too_old"
    using assms by (rule get_seed_version_too_new)
  have r: "file_exists st \<longrightarrow> requires_upgrade st = Inl RuntimeError_too_old"
    using g by (simp add: requires_upgrade_def bnd_def)
  have v: "version_gated a b body st = Inl (RuntimeError_too_old, st)"
    using g by (rule version_gated_too_new)
  have s: "upgrade_steps X st os1 = Inl (RuntimeError_too_old, st, os1)" for os1
    using g by (rule upgrade_steps_too_new)
  obtain res where b: "backup_wallet st os = Some res"
    using backup_wallet_returns by blast
  have u: "\<exists>e os1. upgrade X st os = Some (Inl (e, st, os1))"
    using b s by (cases res) (auto simp: upgrade_def)
  have l: "file_exists st \<and> \<not> manual_upgrades st \<and> requires_split st = Inr False \<longrightarrow>
              load_data X (data st) st os = Some (Inl (RuntimeError_too_old, st, os))"
    using r by (simp add: load_data_def)
  show ?thesis using g r v s u l by blast
qed

theorem seed_version_beyond_final_witness:
  "get_seed_version st_future = Inl RuntimeError_too_old
   \<and> requires_upgrade st_future = Inl RuntimeError_too_old
   \<and> upgrade_steps demo_externals st_future os_two = Inl (RuntimeError_too_old, st_future, os_two)
   \<and> (\<exists>e os1. upgrade demo_externals st_future os_two = Some (Inl (e, st_future, os1)))
   \<and> load_data demo_externals (data st_future) st_future os_two
       = Some (Inl (RuntimeError_too_old, st_future, os_two))"
proof -
  have a: "data st_future ''seed_version'' = Some (JInt 20)"
    by (simp add: st_future_def st_current_def)
  have b: "(20::int) > FINAL_SEED_VERSION" by (simp add: FINAL_SEED_VERSION_def)
  have c: "file_exists st_future \<and> \<not> manual_upgrades st_future
           \<and> requires_split st_future = Inr False"
    by (simp add: st_future_def st_current_def requires_split_def get_def bnd_def)
  show ?thesis
    using seed_version_beyond_final [OF a b, of 0 13 Inr demo_externals os_two] c by simp
qed

section \<open>The backup before an upgrade (C9)\<close>

text \<open>
  C9, as amended. When the storage was opened on an existing file and the file is there,
  \<^verbatim>\<open>upgrade\<close> first copies it to \<^verbatim>\<open>path.backup.N\<close>, where \<open>N\<close> is the least positive number
  for which no such path exists, and runs its steps on the unchanged document with that
  copy in place. When the storage was opened on a path without a file, \<^verbatim>\<open>_backup_wallet\<close>
  returns at once and the steps run without a copy. The search for the name always ends.
\<close>

theorem upgrade_backup_first:
  "(file_exists st \<and> fmlookup (files os) (path st) = Some (File c m) \<longrightarrow>
      (\<exists>N\<ge>1.
         fmlookup (files os) (path st @ ''.backup.'' @ decimal N) = None
         \<and> (\<forall>M. 1 \<le> M \<and> M < N \<longrightarrow>
               fmlookup (files os) (path st @ ''.backup.'' @ decimal M) \<noteq> None)
         \<and> backup_wallet st os =
             Some (Inr (os\<lparr>files := fmupd (path st @ ''.backup.'' @ decimal N)
                                       (File c (new_file_mode os)) (files os)\<rparr>))
         \<and> upgrade X st os =
             Some (upgrade_steps X st
                     (os\<lparr>files := fmupd (path st @ ''.backup.'' @ decimal N)
                                       (File c (new_file_mode os)) (files os)\<rparr>))))
   \<and> (\<not> file_exists st \<longrightarrow>
        backup_wallet st os = Some (Inr os) \<and> upgrade X st os = Some (upgrade_steps X st os))"
proof (intro conjI impI)
  assume h: "file_exists st \<and> fmlookup (files os) (path st) = Some (File c m)"
  obtain N where n: "1 \<le> N" "fmlookup (files os) (path st @ ''.backup.'' @ decimal N) = None"
    "\<forall>M. 1 \<le> M \<and> M < N \<longrightarrow> fmlookup (files os) (path st @ ''.backup.'' @ decimal M) \<noteq> None"
    using first_free_backup_name [of "files os" "path st"] by blast
  then have p: "get_wallet_backup_path st os = Some (path st @ ''.backup.'' @ decimal N)"
    unfolding get_wallet_backup_path_def by (intro backup_path_search) auto
  have b: "backup_wallet st os =
             Some (Inr (os\<lparr>files := fmupd (path st @ ''.backup.'' @ decimal N)
                                       (File c (new_file_mode os)) (files os)\<rparr>))"
    using h p by (simp add: backup_wallet_def)
  have u: "upgrade X st os =
             Some (upgrade_steps X st
                     (os\<lparr>files := fmupd (path st @ ''.backup.'' @ decimal N)
                                       (File c (new_file_mode os)) (files os)\<rparr>))"
    using b by (simp add: upgrade_def)
  show "\<exists>N\<ge>1.
         fmlookup (files os) (path st @ ''.backup.'' @ decimal N) = None
         \<and> (\<forall>M. 1 \<le> M \<and> M < N \<longrightarrow>
               fmlookup (files os) (path st @ ''.backup.'' @ decimal M) \<noteq> None)
         \<and> backup_wallet st os =
             Some (Inr (os\<lparr>files := fmupd (path st @ ''.backup.'' @ decimal N)
                                       (File c (new_file_mode os)) (files os)\<rparr>))
         \<and> upgrade X st os =
             Some (upgrade_steps X st
                     (os\<lparr>files := fmupd (path st @ ''.backup.'' @ decimal N)
                                       (File c (new_file_mode os)) (files os)\<rparr>))"
    using n b u by blast
next
  assume "\<not> file_exists st"
  then show "backup_wallet st os = Some (Inr os)" by (simp add: backup_wallet_def)
next
  assume "\<not> file_exists st"
  then show "upgrade X st os = Some (upgrade_steps X st os)"
    by (simp add: upgrade_def backup_wallet_def)
qed

theorem upgrade_backup_first_witness:
  "backup_wallet st_current os_two =
     Some (Inr (os_two\<lparr>files := fmupd ''w.backup.2'' (File ''{}'' 420) (files os_two)\<rparr>))
   \<and> upgrade demo_externals st_current os_two =
       Some (Inr (st_current,
                  os_two\<lparr>files := fmupd ''w.backup.2'' (File ''{}'' 420) (files os_two)\<rparr>))"
proof -
  have e: "file_exists st_current \<and> fmlookup (files os_two) (path st_current) = Some (File ''{}'' 384)"
    by (simp add: st_current_def os_two_def)
  from upgrade_backup_first [of st_current os_two "''{}''" 384 demo_externals] e
  obtain N where n: "1 \<le> N"
    "fmlookup (files os_two) (path st_current @ ''.backup.'' @ decimal N) = None"
    "\<forall>M. 1 \<le> M \<and> M < N \<longrightarrow>
        fmlookup (files os_two) (path st_current @ ''.backup.'' @ decimal M) \<noteq> None"
    "backup_wallet st_current os_two =
       Some (Inr (os_two\<lparr>files := fmupd (path st_current @ ''.backup.'' @ decimal N)
                                 (File ''{}'' (new_file_mode os_two)) (files os_two)\<rparr>))"
    "upgrade demo_externals st_current os_two =
       Some (upgrade_steps demo_externals st_current
               (os_two\<lparr>files := fmupd (path st_current @ ''.backup.'' @ decimal N)
                                 (File ''{}'' (new_file_mode os_two)) (files os_two)\<rparr>))"
    by blast
  have "N \<noteq> 1" using n(2) by (auto simp: os_two_def st_current_def decimal_1)
  moreover have "\<not> 2 < N"
  proof
    assume "2 < N"
    with n(3) have "fmlookup (files os_two) (path st_current @ ''.backup.'' @ decimal 2) \<noteq> None"
      by simp
    then show False by (simp add: os_two_def st_current_def decimal_2)
  qed
  ultimately have N: "N = 2" using n(1) by simp
  have s: "upgrade_steps demo_externals st_current os1 = Inr (st_current, os1)" for os1
    by (simp add: upgrade_steps_def convert_imported_def convert_wallet_type_def
        convert_account_def convert_version_13_b_def convert_version_14_def
        convert_version_15_def convert_version_16_def convert_version_17_def
        convert_version_18_def convert_version_19_def version_gated_def
        is_upgrade_method_needed_def get_seed_version_def get_def check_seed_version_def
        bnd_def FINAL_SEED_VERSION_def st_current_def put_def write_storage_def
        demo_externals_def)
  show ?thesis using n(4,5) N s by (simp add: decimal_2 st_current_def os_two_def)
qed

text \<open>
  C9, as stated, fails: the copy is not unconditional. \<^verbatim>\<open>upgrade\<close> on the storage of a path
  without a file runs to its end, writes the wallet file, and makes no backup.
\<close>

theorem upgrade_without_backup_counterexample:
  "upgrade demo_externals st_fresh os_two =
     Some (Inr (st_fresh\<lparr>file_exists := True, file_raw := ''{}'', modified := False\<rparr>,
                os_two\<lparr>files := fmupd ''w.imported'' (File ''{}'' 384)
                                  (fmdrop ''w.imported.tmp.7''
                                     (fmupd ''w.imported.tmp.7'' (File ''{}'' 420) (files os_two)))\<rparr>))
   \<and> \<not> file_exists st_fresh"
  by (simp add: upgrade_def backup_wallet_def upgrade_steps_def convert_imported_def
      convert_wallet_type_def convert_account_def convert_version_13_b_def
      convert_version_14_def convert_version_15_def convert_version_16_def
      convert_version_17_def convert_version_18_def convert_version_19_def version_gated_def
      is_upgrade_method_needed_def get_seed_version_def get_def check_seed_version_def
      bnd_def FINAL_SEED_VERSION_def st_fresh_def put_def write_storage_def os_two_def
      decimal_7 Let_def demo_externals_def)

section \<open>Puts that change nothing (C10)\<close>

lemma put_same_as_stored: "same_as_stored st key val \<Longrightarrow> put st key val = st"
  by (auto simp: same_as_stored_def put_def split: option.splits)

lemma put_all_same_as_stored:
  "list_all (\<lambda>kv. same_as_stored st (fst kv) (snd kv)) kvs \<Longrightarrow> put_all st kvs = st"
  by (induction kvs) (simp_all add: put_same_as_stored)

lemma write_storage_unmodified: "\<not> modified st \<Longrightarrow> write_storage X st os = Inr (st, os)"
  by (simp add: write_storage_def)

text \<open>
  C10, as amended. A \<^verbatim>\<open>put\<close> of a value that is not \<^verbatim>\<open>None\<close> and equals the value stored
  under the key, or of \<^verbatim>\<open>None\<close> under an absent key, leaves the document and the modified
  flag as they are. \<^verbatim>\<open>write\<close> on a storage that is not modified returns without touching
  the file system. Hence after any sequence of such puts on a storage that is not modified,
  \<^verbatim>\<open>write\<close> leaves the file system as it is.
\<close>

theorem put_same_value_never_rewrites:
  "(same_as_stored st key val \<longrightarrow> put st key val = st)
   \<and> (\<not> modified st \<longrightarrow> write_storage X st os = Inr (st, os))
   \<and> (\<not> modified st \<and> list_all (\<lambda>kv. same_as_stored st (fst kv) (snd kv)) kvs \<longrightarrow>
        write_storage X (put_all st kvs) os = Inr (st, os))"
  using put_same_as_stored put_all_same_as_stored write_storage_unmodified by auto

theorem put_same_value_never_rewrites_witness:
  "put st_current ''seed_version'' (JInt 19) = st_current
   \<and> write_storage demo_externals st_current os_two = Inr (st_current, os_two)
   \<and> write_storage demo_externals
        (put_all st_current [(''seed_version'', JInt 19), (''seed'', JNull),
                             (''seed_version'', JInt 19)]) os_two
      = Inr (st_current, os_two)"
proof -
  have a: "same_as_stored st_current ''seed_version'' (JInt 19)"
    by (simp add: same_as_stored_def st_current_def)
  have b: "\<not> modified st_current" by (simp add: st_current_def)
  have c: "list_all (\<lambda>kv. same_as_stored st_current (fst kv) (snd kv))
             [(''seed_version'', JInt 19), (''seed'', JNull), (''seed_version'', JInt 19)]"
    by (simp add: same_as_stored_def st_current_def)
  note t = put_same_value_never_rewrites
      [of st_current "''seed_version''" "JInt 19" demo_externals os_two
          "[(''seed_version'', JInt 19), (''seed'', JNull), (''seed_version'', JInt 19)]"]
  from t a have 1: "put st_current ''seed_version'' (JInt 19) = st_current" by blast
  from t b have 2: "write_storage demo_externals st_current os_two = Inr (st_current, os_two)"
    by blast
  from t b c have 3: "write_storage demo_externals
        (put_all st_current [(''seed_version'', JInt 19), (''seed'', JNull),
                             (''seed_version'', JInt 19)]) os_two
      = Inr (st_current, os_two)" by blast
  show ?thesis using 1 2 3 by blast
qed

text \<open>
  C10, as stated, fails where the document holds \<^verbatim>\<open>None\<close> under the key: \<^verbatim>\<open>put(key, None)\<close>
  then removes the key and sets the modified flag, and the next \<^verbatim>\<open>write\<close> rewrites the
  file.
\<close>

theorem put_stored_null_counterexample:
  "data st_null ''seed'' = Some JNull
   \<and> \<not> modified st_null
   \<and> put st_null ''seed'' JNull
       = st_null\<lparr>modified := True, data := [''seed_version'' \<mapsto> JInt 19]\<rparr>
   \<and> put st_null ''seed'' JNull \<noteq> st_null
   \<and> write_storage demo_externals (put st_null ''seed'' JNull) os_two
       = Inr (st_null\<lparr>data := [''seed_version'' \<mapsto> JInt 19]\<rparr>,
              os_two\<lparr>files := fmupd ''w'' (File ''{}'' 384)
                                (fmdrop ''w.tmp.7''
                                   (fmupd ''w.tmp.7'' (File ''{}'' 420) (files os_two)))\<rparr>)"
proof -
  have m: "[''seed_version'' \<mapsto> JInt 19, ''seed'' \<mapsto> JNull](''seed'' := None)
           = [''seed_version'' \<mapsto> JInt 19]"
    by (rule ext) simp
  have p: "put st_null ''seed'' JNull
       = st_null\<lparr>modified := True, data := [''seed_version'' \<mapsto> JInt 19]\<rparr>"
    by (simp add: put_def st_null_def st_current_def m)
  have n: "put st_null ''seed'' JNull \<noteq> st_null"
    by (simp add: p) (simp add: st_null_def st_current_def)
  have w: "write_storage demo_externals (put st_null ''seed'' JNull) os_two
       = Inr (st_null\<lparr>data := [''seed_version'' \<mapsto> JInt 19]\<rparr>,
              os_two\<lparr>files := fmupd ''w'' (File ''{}'' 384)
                                (fmdrop ''w.tmp.7''
                                   (fmupd ''w.tmp.7'' (File ''{}'' 420) (files os_two)))\<rparr>)"
    unfolding p
    by (simp add: write_storage_def st_null_def st_current_def os_two_def demo_externals_def
        decimal_7 Let_def)
  have d: "data st_null ''seed'' = Some JNull" by (simp add: st_null_def st_current_def)
  have u: "\<not> modified st_null" by (simp add: st_null_def st_current_def)
  show ?thesis using d u p n w by blast
qed

section \<open>Keys replaced while signing (C4)\<close>

text \<open>
  C4, as amended. Take a turn of the inner loop of \<^verbatim>\<open>sign\<close> that returns, for a position
  \<open>j\<close> of an input that is not yet complete and a key found in \<open>keypairs\<close>. It puts the
  signature made with the secret of that key into slot \<open>j\<close>. If the key is a script-hash
  placeholder (kind \<^verbatim>\<open>0xfd\<close>), the same turn replaces entry \<open>j\<close> of the key list by the
  public key of the secret, serialised with the compression flag given in \<open>keypairs\<close>. A key
  of any other kind, a legacy-keystore reference (kind \<^verbatim>\<open>0xfe\<close>) among them, stays in the
  key list as it is. The loops of \<^verbatim>\<open>sign\<close> do nothing but repeat this turn.
\<close>

theorem sign_slot_replaces_placeholder_only:
  assumes "sign_slot E keypairs i num j x_pubkey tx = Inr (tx', stop)"
    and "i < length (inputs tx)"
    and "signatures (inputs tx ! i) = Some sigs"
    and "int (length (present_signatures sigs)) \<noteq> num"
    and "keypairs x_pubkey = Some (sec, compressed)"
  shows "\<exists>sig. sign_txin E tx (int i) sec = Inr sig
           \<and> j < length sigs
           \<and> signatures (inputs tx' ! i) = Some (sigs[j := Some sig])
           \<and> (if kind x_pubkey = Inr 0xfd
                then \<exists>new_key. key_of_secret E sec compressed = Inr new_key
                       \<and> x_pubkeys (inputs tx' ! i)
                           = map_option (\<lambda>l. l[j := new_key]) (x_pubkeys (inputs tx ! i))
                else x_pubkeys (inputs tx' ! i) = x_pubkeys (inputs tx ! i))"
  using assms unfolding sign_slot_def Let_def set_input_def
  by (auto split: sum.splits if_splits)

theorem sign_slot_replaces_placeholder_only_witness:
  "sign_slot demo_library keypairs_fd 0 1 0 key_fd tx_fd
     = Inr (tx_fd\<lparr>inputs := [txin_fd_signed]\<rparr>, False)
   \<and> kind key_fd = Inr 0xfd
   \<and> x_pubkeys (inputs tx_fd ! 0) = Some [key_fd]
   \<and> x_pubkeys (inputs (tx_fd\<lparr>inputs := [txin_fd_signed]\<rparr>) ! 0) = Some [2 # replicate 32 0x07]
   \<and> signatures (inputs (tx_fd\<lparr>inputs := [txin_fd_signed]\<rparr>) ! 0) = Some [Some sig_demo]"
proof -
  have k: "kind key_fd = Inr 0xfd" by (simp add: kind_def key_fd_def)
  have a: "(0::nat) < length (inputs tx_fd)" by (simp add: tx_fd_def)
  have b: "signatures (inputs tx_fd ! 0) = Some [None]"
    by (simp add: tx_fd_def txin_unsigned_def)
  have c: "int (length (present_signatures [None])) \<noteq> 1" by simp
  have d: "keypairs_fd key_fd = Some (replicate 32 0x07, True)" by (simp add: keypairs_fd_def)
  have x: "x_pubkeys (inputs tx_fd ! 0) = Some [key_fd]" by (simp add: tx_fd_def)
  from sign_slot_replaces_placeholder_only [OF sign_slot_fd a b c d] k
  obtain sig new_key where
    s: "signatures (inputs (tx_fd\<lparr>inputs := [txin_fd_signed]\<rparr>) ! 0) = Some ([None][0 := Some sig])"
    and g: "sign_txin demo_library tx_fd (int 0) (replicate 32 0x07) = Inr sig"
    and n: "key_of_secret demo_library (replicate 32 0x07) True = Inr new_key"
    and r: "x_pubkeys (inputs (tx_fd\<lparr>inputs := [txin_fd_signed]\<rparr>) ! 0)
              = map_option (\<lambda>l. l[0 := new_key]) (x_pubkeys (inputs tx_fd ! 0))"
    by auto
  from g have "sig = sig_demo" by (simp add: sign_txin_fd)
  moreover from n have "new_key = 2 # replicate 32 0x07" by (simp add: key_of_secret_demo)
  ultimately show ?thesis using s r x k sign_slot_fd by simp
qed

text \<open>
  C4, as stated, fails for a legacy-keystore reference: the signing pass of \<^verbatim>\<open>sign\<close> over
  \<open>tx_fe\<close> inserts the signature for the key of kind \<^verbatim>\<open>0xfe\<close> and leaves that key in the
  key list, although it resolves to another, raw public key.
\<close>

theorem sign_keeps_legacy_reference_counterexample:
  "sign_inputs demo_library keypairs_fe 0 (length (inputs tx_fe)) tx_fe
     = Inr (tx_fe\<lparr>inputs := [txin_fe_signed]\<rparr>)
   \<and> kind key_fe = Inr 0xfe
   \<and> keypairs_fe key_fe = Some (replicate 32 0x07, False)
   \<and> signatures (inputs tx_fe ! 0) = Some [None]
   \<and> signatures txin_fe_signed = Some [Some sig_demo]
   \<and> x_pubkeys txin_fe_signed = Some [key_fe]
   \<and> to_public_key demo_library key_fe = Inr (PublicKey key_04)
   \<and> key_04 \<noteq> key_fe"
  by (simp add: sign_inputs_fe to_public_key_fe)
     (simp add: kind_def key_fe_def keypairs_fe_def tx_fe_def txin_fe_signed_def
       txin_unsigned_def key_04_def)

section \<open>Serialising and reading back (C2)\<close>




section \<open>The value field of an incomplete input (C7)\<close>












section \<open>Signatures of a remote signer (C5)\<close>











































end
